theory Spec2Isabelle
  imports Complex_Main
begin

section \<open>JavaScript strings used by \<^verbatim>\<open>src/routes/chat.js\<close>\<close>

text \<open>
  Strings are byte lists (UTF-8).  Every keyword the handler searches for is plain
  ASCII, so searching the bytes agrees with searching the UTF-16 code units.  Case
  conversion and whitespace are modelled on ASCII: the bytes of a character beyond
  ASCII are left as they are.
\<close>

definition is_upper :: "char \<Rightarrow> bool" where
  "is_upper c = ((65::nat) \<le> of_char c \<and> of_char c \<le> (90::nat))"

definition is_lower :: "char \<Rightarrow> bool" where
  "is_lower c = ((97::nat) \<le> of_char c \<and> of_char c \<le> (122::nat))"

definition is_digit :: "char \<Rightarrow> bool" where
  "is_digit c = ((48::nat) \<le> of_char c \<and> of_char c \<le> (57::nat))"

text \<open>\<^verbatim>\<open>\s\<close> on ASCII: tab, line feed, vertical tab, form feed, carriage return, space.\<close>

definition is_space :: "char \<Rightarrow> bool" where
  "is_space c = ((of_char c :: nat) \<in> {9, 10, 11, 12, 13, 32})"

definition lower_char :: "char \<Rightarrow> char" where
  "lower_char c = (if is_upper c then char_of (of_char c + (32::nat)) else c)"

definition upper_char :: "char \<Rightarrow> char" where
  "upper_char c = (if is_lower c then char_of (of_char c - (32::nat)) else c)"

definition toLowerCase :: "string \<Rightarrow> string" where
  "toLowerCase s = map lower_char s"

definition toUpperCase :: "string \<Rightarrow> string" where
  "toUpperCase s = map upper_char s"

definition trim :: "string \<Rightarrow> string" where
  "trim s = rev (dropWhile is_space (rev (dropWhile is_space s)))"

fun startsWith :: "string \<Rightarrow> string \<Rightarrow> bool" where
  "startsWith s [] = True"
| "startsWith [] (p # ps) = False"
| "startsWith (c # cs) (p # ps) = (c = p \<and> startsWith cs ps)"

text \<open>\<^verbatim>\<open>s.includes(sub)\<close>: \<open>sub\<close> occurs in \<open>s\<close> as a contiguous run.\<close>

fun js_includes :: "string \<Rightarrow> string \<Rightarrow> bool" where
  "js_includes [] sub = (sub = [])"
| "js_includes (c # cs) sub = (startsWith (c # cs) sub \<or> js_includes cs sub)"

text \<open>\<^verbatim>\<open>parts.join(sep)\<close>.\<close>

fun join :: "string \<Rightarrow> string list \<Rightarrow> string" where
  "join sep [] = []"
| "join sep [x] = x"
| "join sep (x # y # ys) = x @ sep @ join sep (y # ys)"

text \<open>\<^verbatim>\<open>xs.slice(-n)\<close> for a positive \<open>n\<close>: the last \<open>n\<close> elements, all of them
  when there are fewer.\<close>

definition slice_last :: "nat \<Rightarrow> 'a list \<Rightarrow> 'a list" where
  "slice_last n xs = drop (length xs - n) xs"

text \<open>A string is truthy when it is not empty; \<open>None\<close> stands for
  \<^verbatim>\<open>null\<close> and \<^verbatim>\<open>undefined\<close>.\<close>

fun truthy :: "string option \<Rightarrow> bool" where
  "truthy None = False"
| "truthy (Some s) = (s \<noteq> [])"

definition nl :: string where
  "nl = [CHR 0x0A]"

definition dq :: string where
  "dq = [CHR 0x22]"

section \<open>JavaScript numbers\<close>

text \<open>
  A finite number is modelled by the rational it denotes; the rounding of IEEE doubles
  and the sign of zero are not modelled.  The non-finite values are kept, since a
  division by a zero price produces them.
\<close>

datatype jsnum = Fin rat | PosInf | NegInf | NaN

fun js_mul :: "jsnum \<Rightarrow> jsnum \<Rightarrow> jsnum" where
  "js_mul (Fin a) (Fin b) = Fin (a * b)"
| "js_mul NaN _ = NaN"
| "js_mul _ NaN = NaN"
| "js_mul (Fin a) PosInf = (if a = 0 then NaN else if 0 < a then PosInf else NegInf)"
| "js_mul (Fin a) NegInf = (if a = 0 then NaN else if 0 < a then NegInf else PosInf)"
| "js_mul PosInf (Fin b) = (if b = 0 then NaN else if 0 < b then PosInf else NegInf)"
| "js_mul NegInf (Fin b) = (if b = 0 then NaN else if 0 < b then NegInf else PosInf)"
| "js_mul PosInf PosInf = PosInf"
| "js_mul PosInf NegInf = NegInf"
| "js_mul NegInf PosInf = NegInf"
| "js_mul NegInf NegInf = PosInf"

fun js_div :: "jsnum \<Rightarrow> jsnum \<Rightarrow> jsnum" where
  "js_div (Fin a) (Fin b) =
     (if b = 0 then (if a = 0 then NaN else if 0 < a then PosInf else NegInf)
      else Fin (a / b))"
| "js_div NaN _ = NaN"
| "js_div _ NaN = NaN"
| "js_div (Fin a) PosInf = Fin 0"
| "js_div (Fin a) NegInf = Fin 0"
| "js_div PosInf (Fin b) = (if 0 \<le> b then PosInf else NegInf)"
| "js_div NegInf (Fin b) = (if 0 \<le> b then NegInf else PosInf)"
| "js_div PosInf PosInf = NaN"
| "js_div PosInf NegInf = NaN"
| "js_div NegInf PosInf = NaN"
| "js_div NegInf NegInf = NaN"

text \<open>\<^verbatim>\<open>a < b\<close>; every comparison with \<^verbatim>\<open>NaN\<close> is false.\<close>

fun js_lt :: "jsnum \<Rightarrow> jsnum \<Rightarrow> bool" where
  "js_lt (Fin a) (Fin b) = (a < b)"
| "js_lt NaN _ = False"
| "js_lt _ NaN = False"
| "js_lt (Fin a) PosInf = True"
| "js_lt (Fin a) NegInf = False"
| "js_lt PosInf _ = False"
| "js_lt NegInf (Fin b) = True"
| "js_lt NegInf PosInf = True"
| "js_lt NegInf NegInf = False"

definition js_gt :: "jsnum \<Rightarrow> jsnum \<Rightarrow> bool" where
  "js_gt a b = js_lt b a"


text \<open>A number is truthy unless it is zero or \<^verbatim>\<open>NaN\<close>.\<close>

fun num_truthy :: "jsnum \<Rightarrow> bool" where
  "num_truthy (Fin a) = (a \<noteq> 0)"
| "num_truthy NaN = False"
| "num_truthy _ = True"

text \<open>
  \<^verbatim>\<open>parseFloat(x.toFixed(8))\<close>.  \<^verbatim>\<open>toFixed(8)\<close> takes the integer \<open>n\<close>
  with \<open>n / 10^8\<close> nearest to \<open>|x|\<close>, the larger one on a tie, and puts the sign back;
  from \<open>10^21\<close> on it prints the number itself.  The non-finite values print as
  their names, which \<^verbatim>\<open>parseFloat\<close> reads back.
\<close>

definition round8 :: "rat \<Rightarrow> rat" where
  "round8 x =
     (if 10 ^ 21 \<le> \<bar>x\<bar> then x
      else sgn x * of_int \<lfloor>\<bar>x\<bar> * 10 ^ 8 + 1 / 2\<rfloor> / 10 ^ 8)"

fun toFixed8 :: "jsnum \<Rightarrow> jsnum" where
  "toFixed8 (Fin x) = Fin (round8 x)"
| "toFixed8 n = n"

section \<open>The first number of a message\<close>

text \<open>
  \<^verbatim>\<open>cleanMessage.match(/(\d+(\.\d+)?)/)\<close>: the leftmost run of digits, as long as it
  goes, with a dot and a further run of digits when they follow directly.
\<close>

definition digit_val :: "char \<Rightarrow> nat" where
  "digit_val c = of_char c - (48::nat)"

definition match_from :: "string \<Rightarrow> string" where
  "match_from s =
     (let ds = takeWhile is_digit s; rest = dropWhile is_digit s
      in case rest of
           [] \<Rightarrow> ds
         | c # cs \<Rightarrow>
             (if c = CHR ''.'' \<and> takeWhile is_digit cs \<noteq> []
              then ds @ [c] @ takeWhile is_digit cs else ds))"

fun amountMatch :: "string \<Rightarrow> string option" where
  "amountMatch [] = None"
| "amountMatch (c # cs) =
     (if is_digit c then Some (match_from (c # cs)) else amountMatch cs)"

definition digits_nat :: "string \<Rightarrow> nat" where
  "digits_nat ds = foldl (\<lambda>acc c. 10 * acc + digit_val c) 0 ds"

text \<open>\<^verbatim>\<open>parseFloat\<close> on a match of the pattern above: integer part, then the
  fraction when there is one.\<close>

definition parseFloat :: "string \<Rightarrow> jsnum" where
  "parseFloat s =
     (let ip = takeWhile is_digit s; fp = drop (length ip + 1) s
      in Fin (of_nat (digits_nat ip) + of_nat (digits_nat fp) / 10 ^ length fp))"

section \<open>Data exchanged with the collaborators\<close>

text \<open>A row of \<^verbatim>\<open>crypto_prices\<close>, as \<^verbatim>\<open>getCryptoData\<close> selects it; no column is
  \<^verbatim>\<open>NULL\<close>.\<close>

record coinFact =
  cf_name :: string
  cf_symbol :: string
  cf_price :: jsnum
  cf_market_cap :: jsnum
  cf_volume_24h :: jsnum
  cf_change_24h :: jsnum
  cf_last_updated :: string

record newsItem =
  title :: string
  url :: string
  source :: string
  published_at :: string

text \<open>An entry of \<^verbatim>\<open>/api/assets\<close>: \<^verbatim>\<open>{coin: {id, name, symbol}, quantity}\<close>.\<close>

record coinRef =
  coin_id :: string
  coin_name :: string
  coin_symbol :: string

record asset =
  coin :: coinRef
  asset_quantity :: jsnum

record wallet =
  wallet_id :: jsnum
  balance :: jsnum

record profile =
  fullName :: string
  email :: string
  mobile :: "string option"

datatype order_type = BUY | SELL

record orderData =
  coinId :: string
  order_quantity :: jsnum
  orderType :: order_type

text \<open>
  What a collaborator answers.  \<^verbatim>\<open>model.generateContent\<close> throws or yields a text;
  a \<^verbatim>\<open>db\<close> callback gets an error or the result; \<^verbatim>\<open>axios.get\<close> throws (with a
  message) or yields \<^verbatim>\<open>response.data\<close>, \<open>None\<close> when that is \<^verbatim>\<open>null\<close>;
  \<^verbatim>\<open>axios.post\<close> succeeds or throws an error carrying
  \<^verbatim>\<open>error.response?.data?.error\<close> (when there is one) and \<^verbatim>\<open>error.message\<close>.
\<close>

datatype gen_result = GenFail | GenText string

datatype 'a db_result = DbErr | DbOk 'a

datatype 'a http_result = HttpFail string | HttpOk "'a option"

datatype post_result = PostOk | PostFail "string option" string

text \<open>The calls that leave the process, in the order they are made.\<close>

datatype call =
  GenerateContent string
| DbGet string
| DbAll nat
| HttpGet string string
| HttpPost string orderData string

text \<open>An awaited promise: its value, or the reason of the rejection.\<close>

datatype 'a promise = Resolved 'a | Rejected string

section \<open>The gateways\<close>

text \<open>
  Each gateway takes what its collaborator answers and returns what the caller of
  \<^verbatim>\<open>await\<close> sees, with the calls it made.

  \<^verbatim>\<open>getCryptoData(coinName)\<close> evaluates \<^verbatim>\<open>coinName.toLowerCase()\<close> inside the
  promise executor: on \<^verbatim>\<open>null\<close> that throws a TypeError before \<^verbatim>\<open>db.get\<close> is
  reached, and the promise is rejected.  On a database error the callback rejects
  with the text \<^verbatim>\<open>Database error.\<close>; otherwise it resolves with the row, which is
  \<^verbatim>\<open>undefined\<close> when no row matches.
\<close>

fun getCryptoData ::
  "string option \<Rightarrow> coinFact option db_result \<Rightarrow> coinFact option promise \<times> call list" where
  "getCryptoData None r = (Rejected ''TypeError'', [])"
| "getCryptoData (Some c) DbErr = (Rejected ''Database error.'', [DbGet (toLowerCase c)])"
| "getCryptoData (Some c) (DbOk row) = (Resolved row, [DbGet (toLowerCase c)])"

fun getLatestNews :: "nat \<Rightarrow> newsItem list db_result \<Rightarrow> newsItem list promise \<times> call list" where
  "getLatestNews limit DbErr = (Rejected ''Database error fetching news.'', [DbAll limit])"
| "getLatestNews limit (DbOk rows) = (Resolved rows, [DbAll limit])"

text \<open>The five account reads have one shape: \<^verbatim>\<open>try { return (await axios.get(...)).data }
  catch (error) { return null }\<close>.\<close>

fun fetchUserProfile :: "string \<Rightarrow> profile http_result \<Rightarrow> profile option promise \<times> call list" where
  "fetchUserProfile authHeader (HttpFail e) = (Resolved None, [HttpGet ''/api/users/profile'' authHeader])"
| "fetchUserProfile authHeader (HttpOk d) = (Resolved d, [HttpGet ''/api/users/profile'' authHeader])"

fun fetchUserPortfolio ::
  "string \<Rightarrow> asset list http_result \<Rightarrow> asset list option promise \<times> call list" where
  "fetchUserPortfolio authHeader (HttpFail e) = (Resolved None, [HttpGet ''/api/assets'' authHeader])"
| "fetchUserPortfolio authHeader (HttpOk d) = (Resolved d, [HttpGet ''/api/assets'' authHeader])"

fun fetchOrderHistory :: "string \<Rightarrow> 'a http_result \<Rightarrow> 'a option promise \<times> call list" where
  "fetchOrderHistory authHeader (HttpFail e) = (Resolved None, [HttpGet ''/api/orders'' authHeader])"
| "fetchOrderHistory authHeader (HttpOk d) = (Resolved d, [HttpGet ''/api/orders'' authHeader])"

fun fetchUserWallet :: "string \<Rightarrow> wallet http_result \<Rightarrow> wallet option promise \<times> call list" where
  "fetchUserWallet authHeader (HttpFail e) = (Resolved None, [HttpGet ''/api/wallet'' authHeader])"
| "fetchUserWallet authHeader (HttpOk d) = (Resolved d, [HttpGet ''/api/wallet'' authHeader])"

fun fetchWalletTransactions :: "string \<Rightarrow> 'a http_result \<Rightarrow> 'a option promise \<times> call list" where
  "fetchWalletTransactions authHeader (HttpFail e) =
     (Resolved None, [HttpGet ''/api/wallet/transactions'' authHeader])"
| "fetchWalletTransactions authHeader (HttpOk d) =
     (Resolved d, [HttpGet ''/api/wallet/transactions'' authHeader])"

text \<open>\<^verbatim>\<open>extractCoinName\<close>: the answer trimmed and lowercased, \<^verbatim>\<open>null\<close> when it is
  \<^verbatim>\<open>unknown\<close> or the collaborator throws.\<close>

definition extractCoinName_prompt :: "string \<Rightarrow> string" where
  "extractCoinName_prompt userQuery =
     ''Identify the cryptocurrency name or symbol from this query. Respond only with the name/symbol or ''
     @ dq @ ''unknown'' @ dq @ ''. Query: '' @ dq @ userQuery @ dq"

fun extractCoinName :: "string \<Rightarrow> gen_result \<Rightarrow> string option \<times> call list" where
  "extractCoinName userQuery GenFail = (None, [GenerateContent (extractCoinName_prompt userQuery)])"
| "extractCoinName userQuery (GenText t) =
     (let coinName = toLowerCase (trim t)
      in (if coinName = ''unknown'' then None else Some coinName,
          [GenerateContent (extractCoinName_prompt userQuery)]))"

text \<open>\<^verbatim>\<open>detectIntent\<close>: one of the five categories, \<^verbatim>\<open>general\<close> for anything else
  and when the collaborator throws.  \<^verbatim>\<open>coinName\<close> is a non-empty string wherever the
  handler calls it.\<close>

definition detectIntent_prompt :: "string \<Rightarrow> string \<Rightarrow> string" where
  "detectIntent_prompt userQuery coinName =
     ''Classify this query about '' @ coinName @
     '' into one of: price, market_cap, volume, change, general. Respond with only the category. Query: ''
     @ dq @ userQuery @ dq"

fun detectIntent :: "string \<Rightarrow> string \<Rightarrow> gen_result \<Rightarrow> string \<times> call list" where
  "detectIntent userQuery coinName GenFail =
     (''general'', [GenerateContent (detectIntent_prompt userQuery coinName)])"
| "detectIntent userQuery coinName (GenText t) =
     (let intent = toLowerCase (trim t)
      in (if intent \<in> set [''price'', ''market_cap'', ''volume'', ''change'', ''general'']
          then intent else ''general'',
          [GenerateContent (detectIntent_prompt userQuery coinName)]))"

text \<open>\<^verbatim>\<open>cleanResponse\<close>: line feeds to spaces, the emphasis markers out, runs of
  whitespace to one space, trimmed.\<close>

fun remove_double_star :: "string \<Rightarrow> string" where
  "remove_double_star (a # b # cs) =
     (if a = CHR ''*'' \<and> b = CHR ''*'' then remove_double_star cs
      else a # remove_double_star (b # cs))"
| "remove_double_star cs = cs"

text \<open>\<^verbatim>\<open>replace(/\s+/g, " ")\<close>; the flag says that the run of whitespace the scan is in
  has already been replaced.\<close>

fun collapse_space :: "bool \<Rightarrow> string \<Rightarrow> string" where
  "collapse_space in_run [] = []"
| "collapse_space in_run (c # cs) =
     (if is_space c then (if in_run then collapse_space True cs
                          else CHR '' '' # collapse_space True cs)
      else c # collapse_space False cs)"

definition cleanResponse :: "string \<Rightarrow> string" where
  "cleanResponse text =
     trim (collapse_space False (filter (\<lambda>c. c \<noteq> CHR ''*'')
       (remove_double_star (map (\<lambda>c. if c = CHR 0x0A then CHR '' '' else c) text))))"

section \<open>Conversation memory\<close>

text \<open>
  \<^verbatim>\<open>conversationMemory\<close> maps a user id to its session.  A session is only ever
  created as \<^verbatim>\<open>{ history: [] }\<close> and its \<^verbatim>\<open>history\<close> is never removed, so the
  field is a list here and the two guards that recreate a missing history have
  nothing to do.  A user id that names a property every JavaScript object inherits
  (such as \<^verbatim>\<open>constructor\<close>) is not modelled: the memory is a map with no keys but
  the ones stored.
\<close>

record session =
  history :: "string list"
  lastCoin :: "string option"

type_synonym memory = "string \<rightharpoonup> session"

text \<open>
  \<^verbatim>\<open>updateConversationMemory(userId, userMessage, botReply)\<close>.  Reading
  \<^verbatim>\<open>conversationMemory[userId].history\<close> of a user without a session throws a
  TypeError: \<open>None\<close>.
\<close>

definition updateConversationMemory :: "memory \<Rightarrow> string \<Rightarrow> string \<Rightarrow> string \<Rightarrow> memory option" where
  "updateConversationMemory mem userId userMessage botReply =
     (case mem userId of
        None \<Rightarrow> None
      | Some s \<Rightarrow>
          (let h = history s @ [''User: '' @ userMessage, ''Bot: '' @ botReply]
           in Some (mem(userId \<mapsto> s\<lparr>history := (if 20 < length h then slice_last 20 h else h)\<rparr>))))"

section \<open>One request and its environment\<close>

text \<open>
  The handler awaits each collaborator at fixed places of its text, each at most
  once in a request (the per-asset lookups of the fallback branch once per asset).
  A \<open>world\<close> gives the answer at each place; the handler is a function of it, so a
  statement for every world covers every behaviour of the collaborators.  The three
  number formatters of the runtime are parameters as well.
\<close>

record world =
  extract_gen :: gen_result
  news_rows :: "newsItem list db_result"
  dollar_row :: "coinFact option db_result"
  trade_row :: "coinFact option db_result"
  trade_wallet :: "wallet http_result"
  trade_portfolio :: "asset list http_result"
  order_post :: post_result
  holding_portfolio :: "asset list http_result"
  holding_row :: "coinFact option db_result"
  data_row :: "coinFact option db_result"
  intent_gen :: gen_result
  ctx_profile :: "profile http_result"
  ctx_portfolio :: "asset list http_result"
  ctx_wallet :: "wallet http_result"
  ctx_rows :: "nat \<Rightarrow> coinFact option db_result"
  reply_gen :: gen_result
  numToString :: "jsnum \<Rightarrow> string"
  toFixed2 :: "jsnum \<Rightarrow> string"
  toLocaleString :: "jsnum \<Rightarrow> string"

text \<open>\<^verbatim>\<open>req.body.message\<close>, \<^verbatim>\<open>req.headers.authorization\<close> and \<^verbatim>\<open>req.ip\<close>.  The body
  is an object, and its message, when there is one, is a string.\<close>

record request =
  message :: "string option"
  authorization :: "string option"
  ip :: string

datatype body = Reply string | Error string

text \<open>What a request leaves behind: the response, the memory, the calls made.\<close>

record outcome =
  status :: nat
  body :: body
  memory_after :: memory
  calls :: "call list"

text \<open>The \<^verbatim>\<open>catch\<close> of the handler: what was written to the memory stays.\<close>

definition internal_error :: "memory \<Rightarrow> call list \<Rightarrow> outcome" where
  "internal_error mem tr =
     \<lparr>status = 500, body = Error ''Internal server error'', memory_after = mem, calls = tr\<rparr>"

text \<open>\<^verbatim>\<open>updateConversationMemory(userId, cleanMessage, reply); return res.json({ reply })\<close>.\<close>

definition send_reply :: "memory \<Rightarrow> string \<Rightarrow> string \<Rightarrow> string \<Rightarrow> call list \<Rightarrow> outcome" where
  "send_reply mem userId cleanMessage reply tr =
     (case updateConversationMemory mem userId cleanMessage reply of
        None \<Rightarrow> internal_error mem tr
      | Some mem' \<Rightarrow> \<lparr>status = 200, body = Reply reply, memory_after = mem', calls = tr\<rparr>)"

text \<open>A value inside a template literal; \<^verbatim>\<open>null\<close> prints as its name.\<close>

fun tmpl :: "string option \<Rightarrow> string" where
  "tmpl None = ''null''"
| "tmpl (Some s) = s"

text \<open>The signs of the replies, in UTF-8.\<close>

definition bullet :: string where
  "bullet = [CHR 0xE2, CHR 0x80, CHR 0xA2]"

definition warning_sign :: string where
  "warning_sign = [CHR 0xE2, CHR 0x9A, CHR 0xA0, CHR 0xEF, CHR 0xB8, CHR 0x8F]"

definition cross_mark :: string where
  "cross_mark = [CHR 0xE2, CHR 0x9D, CHR 0x8C]"

definition money_bag :: string where
  "money_bag = [CHR 0xF0, CHR 0x9F, CHR 0x92, CHR 0xB0]"

definition bar_chart :: string where
  "bar_chart = [CHR 0xF0, CHR 0x9F, CHR 0x93, CHR 0x8A]"

definition yen_chart :: string where
  "yen_chart = [CHR 0xF0, CHR 0x9F, CHR 0x92, CHR 0xB9]"

definition up_chart :: string where
  "up_chart = [CHR 0xF0, CHR 0x9F, CHR 0x93, CHR 0x88]"

definition bust :: string where
  "bust = [CHR 0xF0, CHR 0x9F, CHR 0x91, CHR 0xA4]"

definition package :: string where
  "package = [CHR 0xF0, CHR 0x9F, CHR 0x93, CHR 0xA6]"

definition bookmark :: string where
  "bookmark = [CHR 0xF0, CHR 0x9F, CHR 0x94, CHR 0x96]"

definition no_data_reply :: "string option \<Rightarrow> string" where
  "no_data_reply coinName = warning_sign @ '' Couldn't find data for '' @ tmpl coinName"

section \<open>The news branch\<close>

definition newsReply :: "newsItem list \<Rightarrow> string" where
  "newsReply newsItems =
     foldl (\<lambda>newsReply item.
              newsReply @ bullet @ '' '' @ title item @ '' (Source: '' @ source item
                @ '', Published: '' @ published_at item @ '')'' @ nl)
           (''Here are the latest news headlines:'' @ nl) newsItems"

definition newsBranch :: "world \<Rightarrow> memory \<Rightarrow> string \<Rightarrow> string \<Rightarrow> call list \<Rightarrow> outcome" where
  "newsBranch w mem userId cleanMessage tr =
     (case getLatestNews 5 (news_rows w) of
        (Rejected e, cs) \<Rightarrow> internal_error mem (tr @ cs)
      | (Resolved newsItems, cs) \<Rightarrow>
          (if newsItems \<noteq> []
           then send_reply mem userId cleanMessage (newsReply newsItems) (tr @ cs)
           else send_reply mem userId cleanMessage ''No news available at the moment.'' (tr @ cs)))"

section \<open>The buy/sell branch\<close>

definition orderTypeOf :: "string \<Rightarrow> order_type" where
  "orderTypeOf cleanMessage = (if js_includes cleanMessage ''buy'' then BUY else SELL)"

text \<open>\<^verbatim>\<open>orderType.toLowerCase()\<close>.\<close>

fun order_word :: "order_type \<Rightarrow> string" where
  "order_word BUY = ''buy''"
| "order_word SELL = ''sell''"

definition isDollarOf :: "string \<Rightarrow> bool" where
  "isDollarOf cleanMessage =
     (js_includes cleanMessage ''dollar'' \<or> js_includes cleanMessage ''usd''
      \<or> js_includes cleanMessage ''worth'')"

text \<open>
  Lines 215 to 230: the quantity.  A dollar-denominated BUY looks the coin up at
  once, before \<^verbatim>\<open>coinName\<close> has been checked, and divides the amount by the price.
  The result is the quantity with the calls made, or the response that ends the
  request here.
\<close>

definition tradeQuantity ::
  "world \<Rightarrow> memory \<Rightarrow> string \<Rightarrow> string \<Rightarrow> order_type \<Rightarrow> bool \<Rightarrow> jsnum \<Rightarrow> string option
     \<Rightarrow> call list \<Rightarrow> outcome + jsnum \<times> call list" where
  "tradeQuantity w mem userId cleanMessage ot isDollar parsedNumber coinName tr =
     (if ot = BUY then
        (if isDollar then
           (case getCryptoData coinName (dollar_row w) of
              (Rejected e, cs) \<Rightarrow> Inl (internal_error mem (tr @ cs))
            | (Resolved None, cs) \<Rightarrow>
                Inl (send_reply mem userId cleanMessage (no_data_reply coinName) (tr @ cs))
            | (Resolved (Some cryptoData), cs) \<Rightarrow>
                Inr (js_div parsedNumber (cf_price cryptoData), tr @ cs))
         else Inr (parsedNumber, tr))
      else Inr (parsedNumber, tr))"

text \<open>Line 254.\<close>

definition buyCost :: "bool \<Rightarrow> jsnum \<Rightarrow> jsnum \<Rightarrow> jsnum \<Rightarrow> jsnum" where
  "buyCost isDollar parsedNumber quantity price =
     (if isDollar then parsedNumber else js_mul quantity price)"

text \<open>Lines 247 to 259: the wallet must cover the cost of a BUY.\<close>

definition buyCheck ::
  "world \<Rightarrow> memory \<Rightarrow> string \<Rightarrow> string \<Rightarrow> string \<Rightarrow> bool \<Rightarrow> jsnum \<Rightarrow> jsnum \<Rightarrow> coinFact
     \<Rightarrow> call list \<Rightarrow> outcome + call list" where
  "buyCheck w mem userId authHeader cleanMessage isDollar parsedNumber quantity cryptoData tr =
     (case fetchUserWallet authHeader (trade_wallet w) of
        (Rejected e, cs) \<Rightarrow> Inl (internal_error mem (tr @ cs))
      | (Resolved None, cs) \<Rightarrow>
          Inl (send_reply mem userId cleanMessage
                 (cross_mark @ '' Couldn't fetch wallet balance.'') (tr @ cs))
      | (Resolved (Some wallet), cs) \<Rightarrow>
          (if js_gt (buyCost isDollar parsedNumber quantity (cf_price cryptoData)) (balance wallet)
           then Inl (send_reply mem userId cleanMessage
                       ''Insufficient wallet balance to buy.'' (tr @ cs))
           else Inr (tr @ cs)))"

text \<open>\<^verbatim>\<open>portfolio.find(asset => asset.coin.name.toLowerCase() === coinName ||
  asset.coin.symbol.toLowerCase() === coinName)\<close>: the first entry that matches.\<close>

definition findAsset :: "asset list \<Rightarrow> string option \<Rightarrow> asset option" where
  "findAsset portfolio coinName =
     find (\<lambda>asset. Some (toLowerCase (coin_name (coin asset))) = coinName
                  \<or> Some (toLowerCase (coin_symbol (coin asset))) = coinName) portfolio"

definition not_holding_reply :: "string option \<Rightarrow> string" where
  "not_holding_reply coinName = ''You are not holding '' @ tmpl coinName @ ''.''"

text \<open>Lines 260 to 281: a SELL needs the coin in the portfolio, in sufficient quantity.\<close>

definition sellCheck ::
  "world \<Rightarrow> memory \<Rightarrow> string \<Rightarrow> string \<Rightarrow> string \<Rightarrow> string option \<Rightarrow> jsnum
     \<Rightarrow> call list \<Rightarrow> outcome + call list" where
  "sellCheck w mem userId authHeader cleanMessage coinName quantity tr =
     (case fetchUserPortfolio authHeader (trade_portfolio w) of
        (Rejected e, cs) \<Rightarrow> Inl (internal_error mem (tr @ cs))
      | (Resolved None, cs) \<Rightarrow>
          Inl (send_reply mem userId cleanMessage
                 (cross_mark @ '' Couldn't fetch your portfolio.'') (tr @ cs))
      | (Resolved (Some portfolio), cs) \<Rightarrow>
          (case findAsset portfolio coinName of
             None \<Rightarrow>
               Inl (send_reply mem userId cleanMessage (not_holding_reply coinName) (tr @ cs))
           | Some assetFound \<Rightarrow>
               (if js_lt (asset_quantity assetFound) quantity
                then Inl (send_reply mem userId cleanMessage
                            ''Insufficient quantity to sell.'' (tr @ cs))
                else Inr (tr @ cs))))"

text \<open>Lines 283 to 305: the order is built and posted once; a failure is relayed.\<close>

definition makeOrder :: "coinFact \<Rightarrow> jsnum \<Rightarrow> order_type \<Rightarrow> orderData" where
  "makeOrder cryptoData quantity ot =
     \<lparr>coinId = toLowerCase (cf_name cryptoData), order_quantity = toFixed8 quantity,
      orderType = ot\<rparr>"

definition placeOrder ::
  "world \<Rightarrow> memory \<Rightarrow> string \<Rightarrow> string \<Rightarrow> string \<Rightarrow> order_type \<Rightarrow> coinFact \<Rightarrow> jsnum
     \<Rightarrow> call list \<Rightarrow> outcome" where
  "placeOrder w mem userId authHeader cleanMessage ot cryptoData quantity tr =
     (let tr' = tr @ [HttpPost ''/api/orders/pay'' (makeOrder cryptoData quantity ot) authHeader]
      in case order_post w of
           PostOk \<Rightarrow>
             send_reply mem userId cleanMessage
               (''Order placed successfully for '' @ order_word ot @ ''ing ''
                  @ cf_name cryptoData @ ''.'') tr'
         | PostFail upstream msg \<Rightarrow>
             send_reply mem userId cleanMessage
               (cross_mark @ '' Failed to place the order. ''
                  @ (if truthy upstream then tmpl upstream else msg)) tr')"

text \<open>Lines 200 to 306, entered with a truthy \<^verbatim>\<open>authHeader\<close> and a message that
  contains \<^verbatim>\<open>buy\<close> or \<^verbatim>\<open>sell\<close>.\<close>

definition tradeBranch ::
  "world \<Rightarrow> memory \<Rightarrow> string \<Rightarrow> string \<Rightarrow> string \<Rightarrow> string option \<Rightarrow> call list \<Rightarrow> outcome" where
  "tradeBranch w mem userId authHeader cleanMessage coinName tr =
     (let ot = orderTypeOf cleanMessage
      in case amountMatch cleanMessage of
           None \<Rightarrow>
             send_reply mem userId cleanMessage
               (''Please specify the amount to '' @ order_word ot @ ''.'') tr
         | Some amount \<Rightarrow>
             (let parsedNumber = parseFloat amount;
                  isDollar = isDollarOf cleanMessage
              in case tradeQuantity w mem userId cleanMessage ot isDollar parsedNumber coinName tr of
                   Inl out \<Rightarrow> out
                 | Inr (quantity, tr1) \<Rightarrow>
                     (if \<not> truthy coinName
                      then send_reply mem userId cleanMessage
                             ''Please specify which coin you want to trade.'' tr1
                      else case getCryptoData coinName (trade_row w) of
                             (Rejected e, cs) \<Rightarrow> internal_error mem (tr1 @ cs)
                           | (Resolved None, cs) \<Rightarrow>
                               send_reply mem userId cleanMessage (no_data_reply coinName) (tr1 @ cs)
                           | (Resolved (Some cryptoData), cs) \<Rightarrow>
                               (case (if ot = BUY
                                      then buyCheck w mem userId authHeader cleanMessage isDollar
                                             parsedNumber quantity cryptoData (tr1 @ cs)
                                      else sellCheck w mem userId authHeader cleanMessage coinName
                                             quantity (tr1 @ cs)) of
                                  Inl out \<Rightarrow> out
                                | Inr tr2 \<Rightarrow>
                                    placeOrder w mem userId authHeader cleanMessage ot cryptoData
                                      quantity tr2))))"

section \<open>The holdings branch\<close>

text \<open>Lines 310 to 332, entered with a truthy \<^verbatim>\<open>coinName\<close> and \<^verbatim>\<open>authHeader\<close>.\<close>

definition holdingReply :: "world \<Rightarrow> asset \<Rightarrow> coinFact option \<Rightarrow> string" where
  "holdingReply w assetFound coinData =
     (let val = (case coinData of
                   None \<Rightarrow> ''N/A''
                 | Some cd \<Rightarrow>
                     (if num_truthy (cf_price cd)
                      then toFixed2 w (js_mul (asset_quantity assetFound) (cf_price cd))
                      else ''N/A''))
      in ''Yes, you are holding '' @ numToString w (asset_quantity assetFound) @ '' ''
           @ coin_name (coin assetFound) @ '' ('' @ coin_symbol (coin assetFound) @ '').''
           @ (if val \<noteq> ''N/A'' then '' Its current value is $'' @ val @ ''.'' else []))"

definition holdingBranch ::
  "world \<Rightarrow> memory \<Rightarrow> string \<Rightarrow> string \<Rightarrow> string \<Rightarrow> string option \<Rightarrow> call list \<Rightarrow> outcome" where
  "holdingBranch w mem userId authHeader cleanMessage coinName tr =
     (case fetchUserPortfolio authHeader (holding_portfolio w) of
        (Rejected e, cs) \<Rightarrow> internal_error mem (tr @ cs)
      | (Resolved None, cs) \<Rightarrow>
          send_reply mem userId cleanMessage
            (cross_mark @ '' Couldn't fetch your portfolio.'') (tr @ cs)
      | (Resolved (Some portfolio), cs) \<Rightarrow>
          (case findAsset portfolio coinName of
             Some assetFound \<Rightarrow>
               (case getCryptoData (Some (coin_id (coin assetFound))) (holding_row w) of
                  (Rejected e, cs') \<Rightarrow> internal_error mem (tr @ cs @ cs')
                | (Resolved coinData, cs') \<Rightarrow>
                    send_reply mem userId cleanMessage (holdingReply w assetFound coinData)
                      (tr @ cs @ cs'))
           | None \<Rightarrow>
               send_reply mem userId cleanMessage (not_holding_reply coinName) (tr @ cs)))"

section \<open>The market-data branch\<close>

text \<open>\<^verbatim>\<open>responses[intent]\<close>: the four templates, \<^verbatim>\<open>null\<close> for \<^verbatim>\<open>general\<close>.\<close>

definition dataResponse :: "world \<Rightarrow> coinFact \<Rightarrow> string \<Rightarrow> string option" where
  "dataResponse w cryptoData intent =
     (if intent = ''price'' then
        Some (money_bag @ '' Current price of '' @ cf_name cryptoData @ '' (''
              @ toUpperCase (cf_symbol cryptoData) @ '') is $'' @ toFixed2 w (cf_price cryptoData))
      else if intent = ''market_cap'' then
        Some (bar_chart @ '' Market Cap: $'' @ toLocaleString w (cf_market_cap cryptoData))
      else if intent = ''volume'' then
        Some (yen_chart @ '' 24h Volume: $'' @ toLocaleString w (cf_volume_24h cryptoData))
      else if intent = ''change'' then
        Some (up_chart @ '' 24h Change: '' @ numToString w (cf_change_24h cryptoData) @ ''%'')
      else None)"

text \<open>Lines 335 to 356, entered with a truthy \<^verbatim>\<open>coinName\<close>: a response, or the calls
  made when the request falls through to the fallback.\<close>

definition dataBranch ::
  "world \<Rightarrow> memory \<Rightarrow> string \<Rightarrow> string \<Rightarrow> string option \<Rightarrow> call list \<Rightarrow> outcome + call list" where
  "dataBranch w mem userId cleanMessage coinName tr =
     (case getCryptoData coinName (data_row w) of
        (Rejected e, cs) \<Rightarrow> Inl (internal_error mem (tr @ cs))
      | (Resolved (Some cryptoData), cs) \<Rightarrow>
          (case detectIntent cleanMessage (tmpl coinName) (intent_gen w) of
             (intent, cs') \<Rightarrow>
               (case dataResponse w cryptoData intent of
                  Some reply \<Rightarrow> Inl (send_reply mem userId cleanMessage reply (tr @ cs @ cs'))
                | None \<Rightarrow> Inr (tr @ cs @ cs')))
      | (Resolved None, cs) \<Rightarrow>
          Inl (send_reply mem userId cleanMessage (no_data_reply coinName) (tr @ cs)))"

section \<open>The fallback branch\<close>

definition sensitiveKeywords :: "string list" where
  "sensitiveKeywords = [''profile'', ''portfolio'', ''orders'', ''wallet'', ''transaction'']"

definition profilePart :: "profile \<Rightarrow> string" where
  "profilePart p =
     bust @ '' User Profile:'' @ nl @ ''- Name: '' @ fullName p @ nl @ ''- Email: '' @ email p
       @ nl @ ''- Phone: '' @ (if truthy (mobile p) then tmpl (mobile p) else ''Not provided'')"

text \<open>One asset of the portfolio: the lookup of its coin and, unless the lookup is
  rejected, its line of the context.\<close>

definition assetDetail ::
  "world \<Rightarrow> asset \<Rightarrow> coinFact option db_result \<Rightarrow> string option \<times> call list" where
  "assetDetail w a row =
     (case getCryptoData (Some (coin_id (coin a))) row of
        (Rejected e, cs) \<Rightarrow> (None, cs)
      | (Resolved coinData, cs) \<Rightarrow>
          (let currentValue =
                 (case coinData of
                    None \<Rightarrow> ''N/A''
                  | Some cd \<Rightarrow>
                      (if num_truthy (cf_price cd)
                       then toFixed2 w (js_mul (asset_quantity a) (cf_price cd)) else ''N/A''));
               priceText =
                 (case coinData of
                    None \<Rightarrow> ''N/A''
                  | Some cd \<Rightarrow>
                      (if toFixed2 w (cf_price cd) \<noteq> [] then toFixed2 w (cf_price cd) else ''N/A''))
           in (Some (''- '' @ numToString w (asset_quantity a) @ '' '' @ coin_symbol (coin a)
                       @ '' ($'' @ currentValue @ '') @ $'' @ priceText), cs)))"

definition walletPart :: "world \<Rightarrow> wallet \<Rightarrow> string" where
  "walletPart w wl =
     money_bag @ '' Wallet Balance: $'' @ toFixed2 w (balance wl) @ nl @ bookmark
       @ '' Wallet ID: #FAVHJY'' @ numToString w (wallet_id wl)"

text \<open>
  Lines 372 to 394.  The three account reads start together, in the order of the
  array; the lookups of the assets start together, in the order of the portfolio.
  A rejected lookup rejects \<^verbatim>\<open>Promise.all\<close>: \<open>Inl\<close>, with the calls made.
\<close>

definition userContext :: "world \<Rightarrow> string \<Rightarrow> call list + string list \<times> call list" where
  "userContext w authHeader =
     (case (fetchUserProfile authHeader (ctx_profile w),
            fetchUserPortfolio authHeader (ctx_portfolio w),
            fetchUserWallet authHeader (ctx_wallet w)) of
        ((Resolved profile, cs1), (Resolved portfolio, cs2), (Resolved wallet, cs3)) \<Rightarrow>
          (let reads = cs1 @ cs2 @ cs3;
               part1 = (case profile of Some p \<Rightarrow> [profilePart p] | None \<Rightarrow> []);
               part3 = (case wallet of Some wl \<Rightarrow> [walletPart w wl] | None \<Rightarrow> [])
           in case portfolio of
                None \<Rightarrow> Inr (part1 @ part3, reads)
              | Some assets \<Rightarrow>
                  (if assets = [] then Inr (part1 @ part3, reads)
                   else
                     (let details = map (\<lambda>(i, a). assetDetail w a (ctx_rows w i))
                                      (enumerate 0 assets);
                          lookups = concat (map snd details)
                      in case those (map fst details) of
                           None \<Rightarrow> Inl (reads @ lookups)
                         | Some portfolioDetails \<Rightarrow>
                             Inr (part1
                                    @ [package @ '' Portfolio Holdings:'' @ nl
                                         @ join nl portfolioDetails]
                                    @ part3, reads @ lookups))))
      | ((_, cs1), (_, cs2), (_, cs3)) \<Rightarrow> Inl (cs1 @ cs2 @ cs3))"

text \<open>Line 397: \<^verbatim>\<open>history.slice(-10).join("\n")\<close>.\<close>

definition conversationHistory :: "string list \<Rightarrow> string" where
  "conversationHistory h = join nl (slice_last 10 h)"

text \<open>Lines 400 to 404.\<close>

definition buildPrompt :: "string list \<Rightarrow> bool \<Rightarrow> string list \<Rightarrow> string \<Rightarrow> string" where
  "buildPrompt h includeUserData contextParts cleanMessage =
     ''You are a financial assistant.'' @ nl
       @ (if conversationHistory h \<noteq> []
          then ''Conversation History:'' @ nl @ conversationHistory h @ nl else [])
       @ nl
       @ (if includeUserData \<and> contextParts \<noteq> []
          then ''User Data:'' @ nl @ join (nl @ nl) contextParts @ nl else [])
       @ nl
       @ ''Current Query: '' @ dq @ cleanMessage @ dq @ nl
       @ ''Provide a detailed, specific response.''"

text \<open>Lines 360 to 409; \<^verbatim>\<open>authHeader\<close> is empty when the request carries none.\<close>

definition fallbackBranch ::
  "world \<Rightarrow> memory \<Rightarrow> string \<Rightarrow> string \<Rightarrow> string \<Rightarrow> call list \<Rightarrow> outcome" where
  "fallbackBranch w mem userId authHeader cleanMessage tr =
     (let includeUserData = list_ex (js_includes cleanMessage) sensitiveKeywords
      in case (if authHeader \<noteq> [] \<and> includeUserData then userContext w authHeader
               else Inr ([], [])) of
           Inl cs \<Rightarrow> internal_error mem (tr @ cs)
         | Inr (contextParts, cs) \<Rightarrow>
             (case mem userId of
                None \<Rightarrow> internal_error mem (tr @ cs)
              | Some s \<Rightarrow>
                  (let prompt = buildPrompt (history s) includeUserData contextParts cleanMessage;
                       tr' = tr @ cs @ [GenerateContent prompt]
                   in case reply_gen w of
                        GenFail \<Rightarrow> internal_error mem tr'
                      | GenText t \<Rightarrow> send_reply mem userId cleanMessage (cleanResponse t) tr')))"

section \<open>The handler\<close>

text \<open>Line 162.\<close>

definition bad_request :: "memory \<Rightarrow> outcome" where
  "bad_request mem =
     \<lparr>status = 400, body = Error ''Message is required'', memory_after = mem, calls = []\<rparr>"

text \<open>The header as the handler uses it: a missing header and an empty one are both
  falsy and are never told apart, so both are the empty string.\<close>

definition authHeaderOf :: "request \<Rightarrow> string" where
  "authHeaderOf req = (case authorization req of None \<Rightarrow> [] | Some a \<Rightarrow> a)"

text \<open>Line 166.\<close>

definition userIdOf :: "request \<Rightarrow> string" where
  "userIdOf req = (if authHeaderOf req \<noteq> [] then authHeaderOf req else ip req)"

text \<open>Lines 167 to 171: the session of the user, a fresh one on the first message.\<close>

definition sessionOf :: "memory \<Rightarrow> string \<Rightarrow> session" where
  "sessionOf mem userId =
     (case mem userId of None \<Rightarrow> \<lparr>history = [], lastCoin = None\<rparr> | Some s \<Rightarrow> s)"

text \<open>Lines 174 to 179: the coin of this message, else the remembered one.\<close>

definition resolveCoin :: "session \<Rightarrow> string option \<Rightarrow> string option \<times> session" where
  "resolveCoin s extracted =
     (if truthy extracted then (extracted, s\<lparr>lastCoin := extracted\<rparr>)
      else if truthy (lastCoin s) then (lastCoin s, s)
      else (extracted, s))"

definition isNewsQuery :: "string \<Rightarrow> bool" where
  "isNewsQuery cleanMessage =
     (js_includes cleanMessage ''news'' \<or> js_includes cleanMessage ''headlines''
      \<or> js_includes cleanMessage ''latest news'')"

definition isTradeQuery :: "string \<Rightarrow> string \<Rightarrow> bool" where
  "isTradeQuery authHeader cleanMessage =
     (authHeader \<noteq> [] \<and> (js_includes cleanMessage ''buy'' \<or> js_includes cleanMessage ''sell''))"

definition isHoldingQuery :: "string option \<Rightarrow> string \<Rightarrow> string \<Rightarrow> bool" where
  "isHoldingQuery coinName authHeader cleanMessage =
     (truthy coinName \<and> authHeader \<noteq> []
      \<and> (js_includes cleanMessage ''holding'' \<or> js_includes cleanMessage ''am i holding''))"

text \<open>\<^verbatim>\<open>router.post("/", ...)\<close>.\<close>

definition chatHandler :: "world \<Rightarrow> memory \<Rightarrow> request \<Rightarrow> outcome" where
  "chatHandler w mem req =
     (case message req of
        None \<Rightarrow> bad_request mem
      | Some m \<Rightarrow>
          (if m = [] then bad_request mem
           else
             (let authHeader = authHeaderOf req;
                  cleanMessage = trim (toLowerCase m);
                  userId = userIdOf req
              in case extractCoinName cleanMessage (extract_gen w) of
                   (extracted, tr) \<Rightarrow>
                     (case resolveCoin (sessionOf mem userId) extracted of
                        (coinName, s) \<Rightarrow>
                          (let mem1 = mem(userId \<mapsto> s)
                           in if isNewsQuery cleanMessage
                              then newsBranch w mem1 userId cleanMessage tr
                              else if isTradeQuery authHeader cleanMessage
                              then tradeBranch w mem1 userId authHeader cleanMessage coinName tr
                              else if isHoldingQuery coinName authHeader cleanMessage
                              then holdingBranch w mem1 userId authHeader cleanMessage coinName tr
                              else (case (if truthy coinName
                                          then dataBranch w mem1 userId cleanMessage coinName tr
                                          else Inr tr) of
                                      Inl out \<Rightarrow> out
                                    | Inr tr1 \<Rightarrow>
                                        fallbackBranch w mem1 userId authHeader cleanMessage tr1))))))"

section \<open>Notions used in the statements\<close>

text \<open>The orders posted among a list of calls.\<close>

fun orders :: "call list \<Rightarrow> orderData list" where
  "orders [] = []"
| "orders (HttpPost path od a # cs) = od # orders cs"
| "orders (c # cs) = orders cs"

text \<open>The message as the handler works on it (line 164), the answer of the coin
  extraction on it, the call this extraction makes, the coin the handler goes on with
  (line 179) and the session it has stored by then.\<close>

definition cleanOf :: "string \<Rightarrow> string" where
  "cleanOf m = trim (toLowerCase m)"

definition extractedOf :: "world \<Rightarrow> string \<Rightarrow> string option" where
  "extractedOf w m = fst (extractCoinName (cleanOf m) (extract_gen w))"

definition extractCall :: "string \<Rightarrow> call" where
  "extractCall m = GenerateContent (extractCoinName_prompt (cleanOf m))"

definition coinOf :: "world \<Rightarrow> memory \<Rightarrow> request \<Rightarrow> string \<Rightarrow> string option" where
  "coinOf w mem req m = fst (resolveCoin (sessionOf mem (userIdOf req)) (extractedOf w m))"

definition resolvedSession :: "world \<Rightarrow> memory \<Rightarrow> request \<Rightarrow> string \<Rightarrow> session" where
  "resolvedSession w mem req m = snd (resolveCoin (sessionOf mem (userIdOf req)) (extractedOf w m))"

text \<open>A request reaches the buy/sell branch when it carries a message and a
  credential, the message holds \<^verbatim>\<open>buy\<close> or \<^verbatim>\<open>sell\<close>, and the news branch, which comes
  first, does not take it.\<close>

definition reachesTrade :: "request \<Rightarrow> string \<Rightarrow> bool" where
  "reachesTrade req m =
     (message req = Some m \<and> m \<noteq> [] \<and> \<not> isNewsQuery (cleanOf m)
      \<and> isTradeQuery (authHeaderOf req) (cleanOf m))"

text \<open>The store answers the lookups of the buy/sell branch without an error.\<close>

definition storeAnswers :: "world \<Rightarrow> bool" where
  "storeAnswers w = (dollar_row w \<noteq> DbErr \<and> trade_row w \<noteq> DbErr)"

text \<open>The requests of a process, one after the other, each in its own world.\<close>

fun runRequests :: "memory \<Rightarrow> (world \<times> request) list \<Rightarrow> memory" where
  "runRequests mem [] = mem"
| "runRequests mem ((w, req) # rs) = runRequests (memory_after (chatHandler w mem req)) rs"


subsection \<open>Predicates\<close>

text \<open>What a handled request may leave: the internal error with the memory as it was,
  or a reply that has been appended to the history.\<close>

definition reply_or_error :: "memory \<Rightarrow> string \<Rightarrow> string \<Rightarrow> outcome \<Rightarrow> bool" where
  "reply_or_error mem userId cm out =
     ((status out = 500 \<and> memory_after out = mem) \<or>
      (\<exists>r. status out = 200 \<and> body out = Reply r
           \<and> updateConversationMemory mem userId cm r = Some (memory_after out)))"

text \<open>Every stored history has at most 20 entries.\<close>

definition capped :: "memory \<Rightarrow> bool" where
  "capped mem = (\<forall>u s. mem u = Some s \<longrightarrow> length (history s) \<le> 20)"

text \<open>A call that a BUY may make: no read of the portfolio, no order but a BUY order.\<close>

definition buy_only :: "call \<Rightarrow> bool" where
  "buy_only c =
     (case c of
        HttpGet path a \<Rightarrow> path \<noteq> ''/api/assets''
      | HttpPost path od a \<Rightarrow> orderType od = BUY
      | _ \<Rightarrow> True)"

text \<open>The calls that only read: a lookup in the store, a GET to the backend.\<close>

fun is_read :: "call \<Rightarrow> bool" where
  "is_read (DbGet c) = True"
| "is_read (HttpGet path a) = True"
| "is_read c = False"


subsection \<open>Concrete inputs\<close>

text \<open>A world in which every collaborator fails.\<close>

definition down :: world where
  "down =
     \<lparr>extract_gen = GenFail, news_rows = DbErr, dollar_row = DbErr, trade_row = DbErr,
      trade_wallet = HttpFail ''down'', trade_portfolio = HttpFail ''down'',
      order_post = PostFail None ''down'', holding_portfolio = HttpFail ''down'',
      holding_row = DbErr, data_row = DbErr, intent_gen = GenFail,
      ctx_profile = HttpFail ''down'', ctx_portfolio = HttpFail ''down'',
      ctx_wallet = HttpFail ''down'', ctx_rows = (\<lambda>i. DbErr), reply_gen = GenFail,
      numToString = (\<lambda>n. ''1''), toFixed2 = (\<lambda>n. ''1.00''), toLocaleString = (\<lambda>n. ''1'')\<rparr>"

text \<open>Two rows of the store and an asset of a portfolio.\<close>

definition bitcoin :: coinFact where
  "bitcoin =
     \<lparr>cf_name = ''Bitcoin'', cf_symbol = ''btc'', cf_price = Fin 50000,
      cf_market_cap = Fin 1000000, cf_volume_24h = Fin 1000, cf_change_24h = Fin 1,
      cf_last_updated = ''2024-01-01''\<rparr>"


definition one_bitcoin :: asset where
  "one_bitcoin =
     \<lparr>coin = \<lparr>coin_id = ''bitcoin'', coin_name = ''Bitcoin'', coin_symbol = ''BTC''\<rparr>,
      asset_quantity = Fin 1\<rparr>"

text \<open>A world in which the extraction finds bitcoin, the store knows it, the wallet
  holds 500, the portfolio one bitcoin, and an order is accepted.\<close>

definition up :: world where
  "up =
     down\<lparr>extract_gen := GenText ''Bitcoin'', dollar_row := DbOk (Some bitcoin),
          trade_row := DbOk (Some bitcoin),
          trade_wallet := HttpOk (Some \<lparr>wallet_id = Fin 7, balance = Fin 500\<rparr>),
          trade_portfolio := HttpOk (Some [one_bitcoin]),
          order_post := PostOk, reply_gen := GenText ''ok''\<rparr>"


text \<open>A request with a credential, and the session of a first message.\<close>

definition ask :: "string \<Rightarrow> request" where
  "ask m = \<lparr>message = Some m, authorization = Some ''token'', ip = ''10.0.0.1''\<rparr>"

definition fresh :: session where
  "fresh = \<lparr>history = [], lastCoin = None\<rparr>"

text \<open>Histories of ten and of six turns, each turn an entry of the user and an entry
  of the bot, and memories that hold them.\<close>

definition ten_turns :: "string list" where
  "ten_turns =
     [''User: q1'', ''Bot: a1'', ''User: q2'', ''Bot: a2'', ''User: q3'', ''Bot: a3'',
      ''User: q4'', ''Bot: a4'', ''User: q5'', ''Bot: a5'', ''User: q6'', ''Bot: a6'',
      ''User: q7'', ''Bot: a7'', ''User: q8'', ''Bot: a8'', ''User: q9'', ''Bot: a9'',
      ''User: q10'', ''Bot: a10'']"

definition veteran :: memory where
  "veteran = [''token'' \<mapsto> \<lparr>history = ten_turns, lastCoin = Some ''bitcoin''\<rparr>]"

definition six_turns :: "string list" where
  "six_turns =
     [''User: q1'', ''Bot: a1'', ''User: q2'', ''Bot: a2'', ''User: q3'', ''Bot: a3'',
      ''User: q4'', ''Bot: a4'', ''User: q5'', ''Bot: a5'', ''User: q6'', ''Bot: a6'']"

definition regular :: memory where
  "regular = [''token'' \<mapsto> \<lparr>history = six_turns, lastCoin = None\<rparr>]"

section \<open>Memory and responses\<close>

lemma slice_last_all: "length xs \<le> n \<Longrightarrow> slice_last n xs = xs"
  by (simp add: slice_last_def)

lemma length_slice_last: "length (slice_last n xs) = min n (length xs)"
  by (simp add: slice_last_def)

lemma slice_last_append: "slice_last n (slice_last n xs @ ys) = slice_last n (xs @ ys)"
  by (cases "length xs \<le> n") (simp_all add: slice_last_def add.commute)

lemma slice_last_suffix: "\<exists>old. xs = old @ slice_last n xs"
  unfolding slice_last_def by (metis append_take_drop_id)

lemma updateConversationMemory_Some:
  "mem userId = Some s \<Longrightarrow>
   updateConversationMemory mem userId um br =
     Some (mem(userId \<mapsto> s\<lparr>history := slice_last 20 (history s @ [''User: '' @ um, ''Bot: '' @ br])\<rparr>))"
  by (simp add: updateConversationMemory_def Let_def slice_last_all)

lemma updateConversationMemory_None:
  "mem userId = None \<Longrightarrow> updateConversationMemory mem userId um br = None"
  by (simp add: updateConversationMemory_def)

lemma internal_error_simps:
  "status (internal_error mem tr) = 500"
  "body (internal_error mem tr) = Error ''Internal server error''"
  "memory_after (internal_error mem tr) = mem"
  "calls (internal_error mem tr) = tr"
  by (simp_all add: internal_error_def)

lemma send_reply_simps:
  "mem userId = Some s \<Longrightarrow> status (send_reply mem userId cm r tr) = 200"
  "mem userId = Some s \<Longrightarrow> body (send_reply mem userId cm r tr) = Reply r"
  "mem userId = Some s \<Longrightarrow> memory_after (send_reply mem userId cm r tr) =
     mem(userId \<mapsto> s\<lparr>history := slice_last 20 (history s @ [''User: '' @ cm, ''Bot: '' @ r])\<rparr>)"
  by (simp_all add: send_reply_def updateConversationMemory_Some)

lemma calls_send_reply: "calls (send_reply mem userId cm r tr) = tr"
  by (simp add: send_reply_def internal_error_def split: option.splits)

lemma roe_error: "reply_or_error mem userId cm (internal_error mem tr)"
  by (simp add: reply_or_error_def internal_error_def)

lemma roe_reply: "mem userId = Some s \<Longrightarrow> reply_or_error mem userId cm (send_reply mem userId cm r tr)"
  by (simp add: reply_or_error_def send_reply_def updateConversationMemory_Some)

lemma roe_news:
  "mem userId = Some s \<Longrightarrow> reply_or_error mem userId cm (newsBranch w mem userId cm tr)"
  by (auto simp: newsBranch_def roe_error roe_reply split: prod.splits promise.splits)

lemma roe_tradeQuantity:
  "mem userId = Some s \<Longrightarrow> tradeQuantity w mem userId cm ot d n c tr = Inl out \<Longrightarrow>
   reply_or_error mem userId cm out"
  by (auto simp: tradeQuantity_def roe_error roe_reply
           split: prod.splits promise.splits option.splits if_splits)

lemma roe_buyCheck:
  "mem userId = Some s \<Longrightarrow> buyCheck w mem userId a cm d n q cf tr = Inl out \<Longrightarrow>
   reply_or_error mem userId cm out"
  by (auto simp: buyCheck_def roe_error roe_reply
           split: prod.splits promise.splits option.splits if_splits)

lemma roe_sellCheck:
  "mem userId = Some s \<Longrightarrow> sellCheck w mem userId a cm c q tr = Inl out \<Longrightarrow>
   reply_or_error mem userId cm out"
  by (auto simp: sellCheck_def roe_error roe_reply
           split: prod.splits promise.splits option.splits if_splits)

lemma roe_placeOrder:
  "mem userId = Some s \<Longrightarrow> reply_or_error mem userId cm (placeOrder w mem userId a cm ot cf q tr)"
  by (auto simp: placeOrder_def Let_def roe_reply split: post_result.splits)

lemma roe_trade:
  "mem userId = Some s \<Longrightarrow> reply_or_error mem userId cm (tradeBranch w mem userId a cm c tr)"
  unfolding tradeBranch_def Let_def
  by (auto simp: roe_error roe_reply roe_placeOrder
           dest: roe_tradeQuantity roe_buyCheck roe_sellCheck
           split: prod.splits promise.splits option.splits sum.splits if_splits)

lemma roe_holding:
  "mem userId = Some s \<Longrightarrow> reply_or_error mem userId cm (holdingBranch w mem userId a cm c tr)"
  by (auto simp: holdingBranch_def roe_error roe_reply
           split: prod.splits promise.splits option.splits)

lemma roe_data:
  "mem userId = Some s \<Longrightarrow> dataBranch w mem userId cm c tr = Inl out \<Longrightarrow>
   reply_or_error mem userId cm out"
  by (auto simp: dataBranch_def roe_error roe_reply
           split: prod.splits promise.splits option.splits)

lemma roe_fallback:
  "mem userId = Some s \<Longrightarrow> reply_or_error mem userId cm (fallbackBranch w mem userId a cm tr)"
  by (auto simp: fallbackBranch_def Let_def roe_error roe_reply
           split: prod.splits sum.splits option.splits gen_result.splits)

lemma snd_extractCoinName: "snd (extractCoinName q g) = [GenerateContent (extractCoinName_prompt q)]"
  by (cases g) (simp_all add: Let_def)

lemma chatHandler_unfold:
  assumes "message req = Some m" "m \<noteq> []"
  shows "chatHandler w mem req =
     (let mem1 = mem(userIdOf req \<mapsto> resolvedSession w mem req m);
          tr = [extractCall m]
      in if isNewsQuery (cleanOf m)
         then newsBranch w mem1 (userIdOf req) (cleanOf m) tr
         else if isTradeQuery (authHeaderOf req) (cleanOf m)
         then tradeBranch w mem1 (userIdOf req) (authHeaderOf req) (cleanOf m) (coinOf w mem req m) tr
         else if isHoldingQuery (coinOf w mem req m) (authHeaderOf req) (cleanOf m)
         then holdingBranch w mem1 (userIdOf req) (authHeaderOf req) (cleanOf m) (coinOf w mem req m) tr
         else (case (if truthy (coinOf w mem req m)
                     then dataBranch w mem1 (userIdOf req) (cleanOf m) (coinOf w mem req m) tr
                     else Inr tr) of
                 Inl out \<Rightarrow> out
               | Inr tr1 \<Rightarrow> fallbackBranch w mem1 (userIdOf req) (authHeaderOf req) (cleanOf m) tr1))"
  using assms
  by (simp add: chatHandler_def Let_def case_prod_beta cleanOf_def extractedOf_def extractCall_def
        coinOf_def resolvedSession_def snd_extractCoinName cong: sum.case_cong)

lemma chatHandler_roe:
  assumes "message req = Some m" "m \<noteq> []"
  shows "reply_or_error (mem(userIdOf req \<mapsto> resolvedSession w mem req m)) (userIdOf req) (cleanOf m)
           (chatHandler w mem req)"
  unfolding chatHandler_unfold[OF assms] Let_def
  by (auto simp: roe_news roe_trade roe_holding roe_fallback dest: roe_data[rotated] split: sum.splits)

lemma chatHandler_bad_request:
  "message req = None \<or> message req = Some [] \<Longrightarrow> chatHandler w mem req = bad_request mem"
  by (auto simp: chatHandler_def)

lemma history_resolveCoin: "history (snd (resolveCoin s e)) = history s"
  by (simp add: resolveCoin_def)



lemma chatHandler_session:
  assumes "message req = Some m" "m \<noteq> []"
  shows "\<exists>s'. memory_after (chatHandler w mem req) (userIdOf req) = Some s'
           \<and> lastCoin s' = lastCoin (resolvedSession w mem req m)
           \<and> (history s' = history (sessionOf mem (userIdOf req))
              \<or> (\<exists>r. body (chatHandler w mem req) = Reply r \<and> status (chatHandler w mem req) = 200
                    \<and> history s' = slice_last 20 (history (sessionOf mem (userIdOf req))
                          @ [''User: '' @ cleanOf m, ''Bot: '' @ r])))"
proof -
  let ?uid = "userIdOf req" and ?s1 = "resolvedSession w mem req m"
  let ?mem1 = "mem(?uid \<mapsto> ?s1)" and ?out = "chatHandler w mem req"
  have h1: "history ?s1 = history (sessionOf mem ?uid)"
    by (simp add: resolvedSession_def history_resolveCoin)
  from chatHandler_roe[OF assms, of mem w]
  consider (err) "memory_after ?out = ?mem1"
    | (rep) r where "status ?out = 200" "body ?out = Reply r"
        "updateConversationMemory ?mem1 ?uid (cleanOf m) r = Some (memory_after ?out)"
    unfolding reply_or_error_def by blast
  then show ?thesis
  proof cases
    case err
    then show ?thesis using h1 by simp
  next
    case rep
    have "updateConversationMemory ?mem1 ?uid (cleanOf m) r =
            Some (?mem1(?uid \<mapsto> ?s1\<lparr>history := slice_last 20 (history ?s1
                    @ [''User: '' @ cleanOf m, ''Bot: '' @ r])\<rparr>))"
      by (rule updateConversationMemory_Some) simp
    with rep(3) have "memory_after ?out ?uid =
        Some (?s1\<lparr>history := slice_last 20 (history ?s1 @ [''User: '' @ cleanOf m, ''Bot: '' @ r])\<rparr>)"
      by (metis fun_upd_same option.inject)
    then show ?thesis using rep(1,2) h1 by auto
  qed
qed

lemma chatHandler_others:
  assumes "u \<noteq> userIdOf req"
  shows "memory_after (chatHandler w mem req) u = mem u"
proof (cases "message req")
  case None
  then show ?thesis by (simp add: chatHandler_bad_request bad_request_def)
next
  case (Some m)
  show ?thesis
  proof (cases "m = []")
    case True
    with Some show ?thesis by (simp add: chatHandler_bad_request bad_request_def)
  next
    case False
    let ?uid = "userIdOf req" and ?s1 = "resolvedSession w mem req m"
    let ?mem1 = "mem(?uid \<mapsto> ?s1)" and ?out = "chatHandler w mem req"
    from chatHandler_roe[OF Some False, of mem w]
    consider (err) "memory_after ?out = ?mem1"
      | (rep) r where "updateConversationMemory ?mem1 ?uid (cleanOf m) r = Some (memory_after ?out)"
      unfolding reply_or_error_def by blast
    then show ?thesis
    proof cases
      case err
      then show ?thesis using assms by simp
    next
      case rep
      have "updateConversationMemory ?mem1 ?uid (cleanOf m) r =
              Some (?mem1(?uid \<mapsto> ?s1\<lparr>history := slice_last 20 (history ?s1
                      @ [''User: '' @ cleanOf m, ''Bot: '' @ r])\<rparr>))"
        by (rule updateConversationMemory_Some) simp
      with rep have "memory_after ?out = ?mem1(?uid \<mapsto> ?s1\<lparr>history := slice_last 20 (history ?s1
                      @ [''User: '' @ cleanOf m, ''Bot: '' @ r])\<rparr>)"
        by simp
      then show ?thesis using assms by simp
    qed
  qed
qed

lemma sessionOf_capped: "capped mem \<Longrightarrow> length (history (sessionOf mem u)) \<le> 20"
  by (auto simp: capped_def sessionOf_def split: option.splits)

lemma chatHandler_capped:
  assumes "capped mem"
  shows "capped (memory_after (chatHandler w mem req))"
  unfolding capped_def
proof (intro allI impI)
  fix u s
  assume a: "memory_after (chatHandler w mem req) u = Some s"
  show "length (history s) \<le> 20"
  proof (cases "u = userIdOf req \<and> (\<exists>m. message req = Some m \<and> m \<noteq> [])")
    case True
    then obtain m where m: "message req = Some m" "m \<noteq> []" by blast
    from chatHandler_session[OF m, of w mem] a True sessionOf_capped[OF assms, of u]
    show ?thesis by (auto simp: length_slice_last)
  next
    case False
    then have "memory_after (chatHandler w mem req) u = mem u"
      by (cases "message req") (auto simp: chatHandler_others chatHandler_bad_request bad_request_def)
    with a assms show ?thesis by (simp add: capped_def)
  qed
qed

lemma runRequests_capped: "capped mem \<Longrightarrow> capped (runRequests mem rs)"
  by (induction rs arbitrary: mem) (auto simp: chatHandler_capped)

section \<open>The message guard\<close>

text \<open>
  C9.  A request without a message, or with the empty string as its message, is
  answered with status 400 and the error \<^verbatim>\<open>Message is required\<close>; the handler
  calls no collaborator (so no order is posted) and leaves the conversation
  memory, hence every session, exactly as it was.
\<close>

theorem missing_message_rejected:
  "message req = None \<or> message req = Some [] \<Longrightarrow>
     status (chatHandler w mem req) = 400
     \<and> body (chatHandler w mem req) = Error ''Message is required''
     \<and> calls (chatHandler w mem req) = []
     \<and> memory_after (chatHandler w mem req) = mem"
  by (simp add: chatHandler_bad_request bad_request_def)

theorem missing_message_rejected_witness:
  "message \<lparr>message = None, authorization = Some ''token'', ip = ''10.0.0.1''\<rparr> = None
   \<and> status (chatHandler up Map.empty
         \<lparr>message = None, authorization = Some ''token'', ip = ''10.0.0.1''\<rparr>) = 400
   \<and> calls (chatHandler up Map.empty
         \<lparr>message = None, authorization = Some ''token'', ip = ''10.0.0.1''\<rparr>) = []
   \<and> memory_after (chatHandler up Map.empty
         \<lparr>message = None, authorization = Some ''token'', ip = ''10.0.0.1''\<rparr>) = Map.empty
   \<and> message \<lparr>message = Some [], authorization = None, ip = ''10.0.0.1''\<rparr> = Some []
   \<and> status (chatHandler up Map.empty
         \<lparr>message = Some [], authorization = None, ip = ''10.0.0.1''\<rparr>) = 400
   \<and> calls (chatHandler up Map.empty
         \<lparr>message = Some [], authorization = None, ip = ''10.0.0.1''\<rparr>) = []"
  using missing_message_rejected
          [of "\<lparr>message = None, authorization = Some ''token'', ip = ''10.0.0.1''\<rparr>" up Map.empty]
        missing_message_rejected
          [of "\<lparr>message = Some [], authorization = None, ip = ''10.0.0.1''\<rparr>" up Map.empty]
  by simp

section \<open>The history of a session\<close>

text \<open>
  C5.  An update of the history of a session appends the entry of the user and then
  the entry of the bot, in this order, and keeps the last 20 entries of the result,
  so the oldest entries go first; the remembered coin is untouched.  A handled
  message leaves the history of its session as it was (when the request ends in
  the internal error) or updates it once in this way with the reply sent.  Hence,
  once every stored history has at most 20 entries, as at the start of the process,
  this stays so after any sequence of requests.
\<close>

theorem history_capped_fifo:
  "(mem userId = Some s \<longrightarrow>
      (\<exists>s'. updateConversationMemory mem userId um br = Some (mem(userId \<mapsto> s'))
            \<and> history s' = slice_last 20 (history s @ [''User: '' @ um, ''Bot: '' @ br])
            \<and> length (history s') = min 20 (length (history s) + 2)
            \<and> lastCoin s' = lastCoin s))
   \<and> (message req = Some m \<and> m \<noteq> [] \<longrightarrow>
      (\<exists>s'. memory_after (chatHandler w mem req) (userIdOf req) = Some s'
            \<and> (history s' = history (sessionOf mem (userIdOf req))
               \<or> (\<exists>r. body (chatHandler w mem req) = Reply r
                     \<and> history s' = slice_last 20 (history (sessionOf mem (userIdOf req))
                           @ [''User: '' @ cleanOf m, ''Bot: '' @ r])))))
   \<and> (capped mem \<longrightarrow> capped (runRequests mem rs))"
proof (intro conjI impI)
  assume "mem userId = Some s"
  then show "\<exists>s'. updateConversationMemory mem userId um br = Some (mem(userId \<mapsto> s'))
            \<and> history s' = slice_last 20 (history s @ [''User: '' @ um, ''Bot: '' @ br])
            \<and> length (history s') = min 20 (length (history s) + 2)
            \<and> lastCoin s' = lastCoin s"
    by (intro exI[of _ "s\<lparr>history := slice_last 20 (history s @ [''User: '' @ um, ''Bot: '' @ br])\<rparr>"])
       (simp add: updateConversationMemory_Some length_slice_last)
next
  assume "message req = Some m \<and> m \<noteq> []"
  then have m: "message req = Some m" "m \<noteq> []" by simp_all
  from chatHandler_session[OF m, of w mem]
  show "\<exists>s'. memory_after (chatHandler w mem req) (userIdOf req) = Some s'
            \<and> (history s' = history (sessionOf mem (userIdOf req))
               \<or> (\<exists>r. body (chatHandler w mem req) = Reply r
                     \<and> history s' = slice_last 20 (history (sessionOf mem (userIdOf req))
                           @ [''User: '' @ cleanOf m, ''Bot: '' @ r])))"
    by blast
next
  assume "capped mem"
  then show "capped (runRequests mem rs)" by (rule runRequests_capped)
qed

theorem history_capped_fifo_witness:
  "veteran ''token'' = Some \<lparr>history = ten_turns, lastCoin = Some ''bitcoin''\<rparr>
   \<and> (\<exists>s'. updateConversationMemory veteran ''token'' ''hi'' ''yo'' = Some (veteran(''token'' \<mapsto> s'))
          \<and> history s' = drop 2 ten_turns @ [''User: hi'', ''Bot: yo'']
          \<and> length (history s') = 20
          \<and> lastCoin s' = Some ''bitcoin'')
   \<and> message (ask ''Hello'') = Some ''Hello''
   \<and> (\<exists>s'. memory_after (chatHandler up veteran (ask ''Hello'')) (userIdOf (ask ''Hello'')) = Some s'
          \<and> (history s' = ten_turns
             \<or> (\<exists>r. body (chatHandler up veteran (ask ''Hello'')) = Reply r
                   \<and> history s' = slice_last 20 (ten_turns @ [''User: '' @ cleanOf ''Hello'', ''Bot: '' @ r]))))
   \<and> capped veteran
   \<and> capped (runRequests veteran [(up, ask ''Hello''), (down, ask ''buy'')])"
proof -
  let ?s = "\<lparr>history = ten_turns, lastCoin = Some ''bitcoin''\<rparr>"
  have h1: "veteran ''token'' = Some ?s"
    by (simp add: veteran_def)
  have h2: "message (ask ''Hello'') = Some ''Hello'' \<and> ''Hello'' \<noteq> []"
    by (simp add: ask_def)
  have h3: "capped veteran"
    by (simp add: capped_def veteran_def ten_turns_def)
  have h4: "slice_last 20 (ten_turns @ [''User: hi'', ''Bot: yo''])
              = drop 2 ten_turns @ [''User: hi'', ''Bot: yo'']"
    by (simp add: slice_last_def ten_turns_def)
  have h5: "length ten_turns = 20"
    by (simp add: ten_turns_def)
  have h6: "sessionOf veteran (userIdOf (ask ''Hello'')) = ?s"
    by (simp add: sessionOf_def userIdOf_def authHeaderOf_def ask_def veteran_def)
  from history_capped_fifo
         [of veteran "''token''" ?s "''hi''" "''yo''" "ask ''Hello''" "''Hello''" up
             "[(up, ask ''Hello''), (down, ask ''buy'')]"]
  show ?thesis using h1 h2 h3 h4 h5 h6 by simp
qed

section \<open>The remembered coin\<close>




section \<open>What the gateways return\<close>

text \<open>
  C4, as the code has it.  The five account reads resolve whatever the backend does,
  with \<^verbatim>\<open>null\<close> when the request fails.  The two reads of the market-data store
  resolve with what the store returns (no row is \<^verbatim>\<open>undefined\<close>, no news the empty
  list) when the store answers, and reject with a fixed text when the store reports
  an error; a rejected news lookup ends the request with status 500.
\<close>

theorem account_reads_absorb_failures:
  "fst (fetchUserProfile a (HttpFail e)) = Resolved None
   \<and> fst (fetchUserProfile a (HttpOk d1)) = Resolved d1
   \<and> fst (fetchUserPortfolio a (HttpFail e)) = Resolved None
   \<and> fst (fetchUserPortfolio a (HttpOk d2)) = Resolved d2
   \<and> fst (fetchOrderHistory a (HttpFail e)) = Resolved None
   \<and> fst (fetchOrderHistory a (HttpOk d3)) = Resolved d3
   \<and> fst (fetchUserWallet a (HttpFail e)) = Resolved None
   \<and> fst (fetchUserWallet a (HttpOk d4)) = Resolved d4
   \<and> fst (fetchWalletTransactions a (HttpFail e)) = Resolved None
   \<and> fst (fetchWalletTransactions a (HttpOk d5)) = Resolved d5
   \<and> fst (getCryptoData (Some c) (DbOk row)) = Resolved row
   \<and> fst (getLatestNews n (DbOk rows)) = Resolved rows
   \<and> fst (getCryptoData (Some c) DbErr) = Rejected ''Database error.''
   \<and> fst (getLatestNews n DbErr) = Rejected ''Database error fetching news.''
   \<and> (message req = Some m \<and> m \<noteq> [] \<and> isNewsQuery (cleanOf m) \<and> news_rows w = DbErr \<longrightarrow>
        status (chatHandler w mem req) = 500)"
proof -
  have "status (chatHandler w mem req) = 500"
    if "message req = Some m" "m \<noteq> []" "isNewsQuery (cleanOf m)" "news_rows w = DbErr"
    unfolding chatHandler_unfold[OF that(1,2)] Let_def
    using that(3,4) by (simp add: newsBranch_def internal_error_def)
  then show ?thesis by simp
qed

theorem account_reads_absorb_failures_witness:
  "fst (fetchUserWallet ''token'' (HttpFail ''timeout'')) = Resolved None
   \<and> fst (fetchUserWallet ''token'' (HttpOk (Some \<lparr>wallet_id = Fin 7, balance = Fin 500\<rparr>)))
       = Resolved (Some \<lparr>wallet_id = Fin 7, balance = Fin 500\<rparr>)
   \<and> fst (fetchUserPortfolio ''token'' (HttpFail ''timeout'')) = Resolved None
   \<and> fst (getCryptoData (Some ''Bitcoin'') (DbOk None)) = Resolved None
   \<and> fst (getCryptoData (Some ''Bitcoin'') DbErr) = Rejected ''Database error.''
   \<and> message (ask ''Any news?'') = Some ''Any news?''
   \<and> isNewsQuery (cleanOf ''Any news?'')
   \<and> news_rows (up\<lparr>news_rows := DbErr\<rparr>) = DbErr
   \<and> status (chatHandler (up\<lparr>news_rows := DbErr\<rparr>) Map.empty (ask ''Any news?'')) = 500"
proof -
  have h: "message (ask ''Any news?'') = Some ''Any news?''" "''Any news?'' \<noteq> []"
    "isNewsQuery (cleanOf ''Any news?'')" "news_rows (up\<lparr>news_rows := DbErr\<rparr>) = DbErr"
    by code_simp+
  from account_reads_absorb_failures
         [of "''token''" "''timeout''" "None" "None" "None::unit option"
             "Some \<lparr>wallet_id = Fin 7, balance = Fin 500\<rparr>" "None::unit option" "''Bitcoin''" None
             5 "[]" "ask ''Any news?''" "''Any news?''" "up\<lparr>news_rows := DbErr\<rparr>" Map.empty]
  show ?thesis using h by simp
qed

text \<open>The claim as stated fails: on a store error the coin lookup and the news lookup
  are rejected, and the request ends in the internal error.\<close>

theorem store_error_rejected_counterexample:
  "fst (getCryptoData (Some ''bitcoin'') DbErr) = Rejected ''Database error.''
   \<and> fst (getLatestNews 5 DbErr) = Rejected ''Database error fetching news.''
   \<and> status (chatHandler (up\<lparr>news_rows := DbErr\<rparr>) Map.empty (ask ''Any news?'')) = 500
   \<and> status (chatHandler (up\<lparr>data_row := DbErr\<rparr>) Map.empty (ask ''Price of bitcoin?'')) = 500"
  by code_simp

section \<open>Calls of the gateways\<close>

lemma calls_getCryptoData: "getCryptoData c r = (p, cs) \<Longrightarrow> cs = [] \<or> (\<exists>x. cs = [DbGet x])"
  by (cases c; cases r) auto

lemma calls_getLatestNews: "getLatestNews n r = (p, cs) \<Longrightarrow> cs = [DbAll n]"
  by (cases r) auto

lemma calls_fetchUserWallet: "fetchUserWallet a r = (p, cs) \<Longrightarrow> cs = [HttpGet ''/api/wallet'' a]"
  by (cases r) auto

lemma buy_only_news:
  "list_all buy_only tr \<Longrightarrow> list_all buy_only (calls (newsBranch w mem userId cm tr))"
  by (auto simp: newsBranch_def internal_error_def calls_send_reply buy_only_def
           dest!: calls_getLatestNews split: prod.splits promise.splits)

lemma buy_only_trade:
  assumes "list_all buy_only tr" and "js_includes cm ''buy''"
  shows "list_all buy_only (calls (tradeBranch w mem userId a cm c tr))"
  using assms
  unfolding tradeBranch_def tradeQuantity_def buyCheck_def placeOrder_def Let_def orderTypeOf_def
  by (auto simp: internal_error_def calls_send_reply buy_only_def makeOrder_def
           dest!: calls_getCryptoData calls_fetchUserWallet
           split: prod.splits promise.splits option.splits post_result.splits)

text \<open>
  C10.  When a message with a credential contains both \<^verbatim>\<open>buy\<close> and \<^verbatim>\<open>sell\<close>, the
  order type is BUY: every order the request posts is a BUY order, and the request
  never reads the portfolio, which only the holdings check of a SELL does.
\<close>

theorem buy_takes_precedence:
  assumes "message req = Some m" and "m \<noteq> []" and "authHeaderOf req \<noteq> []"
    and "js_includes (cleanOf m) ''buy''" and "js_includes (cleanOf m) ''sell''"
  shows "orderTypeOf (cleanOf m) = BUY
         \<and> (\<forall>od \<in> set (orders (calls (chatHandler w mem req))). orderType od = BUY)
         \<and> (\<forall>a. HttpGet ''/api/assets'' a \<notin> set (calls (chatHandler w mem req)))"
proof -
  have tr: "list_all buy_only [extractCall m]"
    by (simp add: buy_only_def extractCall_def)
  have "list_all buy_only (calls (chatHandler w mem req))"
    unfolding chatHandler_unfold[OF assms(1,2)] Let_def
    using assms(3,4) by (simp add: isTradeQuery_def buy_only_news[OF tr] buy_only_trade[OF tr])
  then have all: "\<forall>c \<in> set (calls (chatHandler w mem req)). buy_only c"
    by (simp add: list_all_iff)
  have o: "od \<in> set (orders cs) \<Longrightarrow> \<exists>p a. HttpPost p od a \<in> set cs" for od cs
    by (induction cs rule: orders.induct) auto
  show ?thesis
  proof (intro conjI ballI allI)
    show "orderTypeOf (cleanOf m) = BUY" using assms(4) by (simp add: orderTypeOf_def)
  next
    fix od assume "od \<in> set (orders (calls (chatHandler w mem req)))"
    then obtain p a where "HttpPost p od a \<in> set (calls (chatHandler w mem req))"
      using o by blast
    with all show "orderType od = BUY" by (fastforce simp: buy_only_def)
  next
    fix a
    show "HttpGet ''/api/assets'' a \<notin> set (calls (chatHandler w mem req))"
      using all by (fastforce simp: buy_only_def)
  qed
qed

theorem buy_takes_precedence_witness:
  "message (ask ''Buy 0.001 bitcoin, sell later'') = Some ''Buy 0.001 bitcoin, sell later''
   \<and> authHeaderOf (ask ''Buy 0.001 bitcoin, sell later'') = ''token''
   \<and> js_includes (cleanOf ''Buy 0.001 bitcoin, sell later'') ''buy''
   \<and> js_includes (cleanOf ''Buy 0.001 bitcoin, sell later'') ''sell''
   \<and> orderTypeOf (cleanOf ''Buy 0.001 bitcoin, sell later'') = BUY
   \<and> orders (calls (chatHandler up Map.empty (ask ''Buy 0.001 bitcoin, sell later'')))
       = [\<lparr>coinId = ''bitcoin'', order_quantity = Fin (1 / 1000), orderType = BUY\<rparr>]
   \<and> HttpGet ''/api/assets'' ''token''
       \<notin> set (calls (chatHandler up Map.empty (ask ''Buy 0.001 bitcoin, sell later'')))"
proof -
  let ?m = "''Buy 0.001 bitcoin, sell later''"
  have h1: "message (ask ?m) = Some ?m" and h2: "?m \<noteq> []"
    and h3: "authHeaderOf (ask ?m) \<noteq> []" and h3': "authHeaderOf (ask ?m) = ''token''"
    by (simp_all add: ask_def authHeaderOf_def)
  have h4: "js_includes (cleanOf ?m) ''buy''" and h5: "js_includes (cleanOf ?m) ''sell''"
    by code_simp+
  have h6: "orders (calls (chatHandler up Map.empty (ask ?m)))
       = [\<lparr>coinId = ''bitcoin'', order_quantity = Fin (1 / 1000), orderType = BUY\<rparr>]"
    by code_simp
  from buy_takes_precedence[OF h1 h2 h3 h4 h5, of up Map.empty]
  show ?thesis using h1 h3' h4 h5 h6 by blast
qed

section \<open>The prompt of the fallback branch\<close>

lemma startsWith_iff: "startsWith s p \<longleftrightarrow> (\<exists>q. s = p @ q)"
  by (induction s p rule: startsWith.induct) auto

lemma js_includes_iff: "js_includes s sub \<longleftrightarrow> (\<exists>p q. s = p @ sub @ q)"
proof (induction s)
  case Nil
  then show ?case by auto
next
  case (Cons c cs)
  show ?case
  proof
    assume "js_includes (c # cs) sub"
    then consider "startsWith (c # cs) sub" | "js_includes cs sub" by auto
    then show "\<exists>p q. c # cs = p @ sub @ q"
    proof cases
      case 1
      then obtain q where "c # cs = sub @ q" by (auto simp: startsWith_iff)
      then have "c # cs = [] @ sub @ q" by simp
      then show ?thesis by blast
    next
      case 2
      then obtain p q where "cs = p @ sub @ q" using Cons.IH by blast
      then have "c # cs = (c # p) @ sub @ q" by simp
      then show ?thesis by blast
    qed
  next
    assume "\<exists>p q. c # cs = p @ sub @ q"
    then obtain p q where pq: "c # cs = p @ sub @ q" by blast
    show "js_includes (c # cs) sub"
    proof (cases p)
      case Nil
      with pq have "startsWith (c # cs) sub" by (auto simp: startsWith_iff)
      then show ?thesis by simp
    next
      case (Cons a p')
      with pq have "cs = p' @ sub @ q" by simp
      then have "js_includes cs sub" using Cons.IH by blast
      then show ?thesis by simp
    qed
  qed
qed

lemma join_embeds: "x \<in> set xs \<Longrightarrow> \<exists>p q. join sep xs = p @ x @ q"
proof (induction sep xs rule: join.induct)
  case (1 sep)
  then show ?case by simp
next
  case (2 sep y)
  then have "join sep [y] = [] @ x @ []" by simp
  then show ?case by blast
next
  case (3 sep y z zs)
  show ?case
  proof (cases "x = y")
    case True
    then have "join sep (y # z # zs) = [] @ x @ (sep @ join sep (z # zs))" by simp
    then show ?thesis by blast
  next
    case False
    with 3 obtain p q where "join sep (z # zs) = p @ x @ q" by auto
    then have "join sep (y # z # zs) = (y @ sep @ p) @ x @ q" by simp
    then show ?thesis by blast
  qed
qed

lemma buildPrompt_embeds_history:
  "js_includes (buildPrompt h incl parts cm) (conversationHistory h)"
proof (cases "conversationHistory h = []")
  case True
  have "buildPrompt h incl parts cm = [] @ [] @ buildPrompt h incl parts cm" by simp
  with True show ?thesis unfolding js_includes_iff by metis
next
  case False
  then have "buildPrompt h incl parts cm =
      (''You are a financial assistant.'' @ nl @ ''Conversation History:'' @ nl)
      @ conversationHistory h
      @ (nl @ nl
         @ (if incl \<and> parts \<noteq> [] then ''User Data:'' @ nl @ join (nl @ nl) parts @ nl else [])
         @ nl @ ''Current Query: '' @ dq @ cm @ dq @ nl @ ''Provide a detailed, specific response.'')"
    by (simp add: buildPrompt_def)
  then show ?thesis unfolding js_includes_iff by blast
qed

lemma buildPrompt_embeds_entry:
  assumes "e \<in> set (slice_last 10 h)"
  shows "js_includes (buildPrompt h incl parts cm) e"
proof -
  from join_embeds[OF assms, of nl] obtain p q where "conversationHistory h = p @ e @ q"
    by (auto simp: conversationHistory_def)
  moreover from buildPrompt_embeds_history[of h incl parts cm]
  obtain p' q' where "buildPrompt h incl parts cm = p' @ conversationHistory h @ q'"
    unfolding js_includes_iff by blast
  ultimately have "buildPrompt h incl parts cm = (p' @ p) @ e @ (q @ q')" by simp
  then show ?thesis unfolding js_includes_iff by blast
qed

lemma assetDetail_calls: "c \<in> set (snd (assetDetail w a row)) \<Longrightarrow> is_read c"
  by (auto simp: assetDetail_def Let_def dest!: calls_getCryptoData
           split: prod.splits promise.splits)

lemma userContext_calls:
  assumes "userContext w a = Inl cs \<or> userContext w a = Inr (parts, cs)"
  shows "\<forall>c \<in> set cs. is_read c"
proof -
  have d: "\<forall>c \<in> set (concat (map snd (map (\<lambda>(i, x). assetDetail w x (ctx_rows w i)) xs))). is_read c"
    for xs
    by (auto dest: assetDetail_calls)
  obtain p1 c1 where f1: "fetchUserProfile a (ctx_profile w) = (Resolved p1, c1)"
    "c1 = [HttpGet ''/api/users/profile'' a]"
    by (cases "ctx_profile w") auto
  obtain p2 c2 where f2: "fetchUserPortfolio a (ctx_portfolio w) = (Resolved p2, c2)"
    "c2 = [HttpGet ''/api/assets'' a]"
    by (cases "ctx_portfolio w") auto
  obtain p3 c3 where f3: "fetchUserWallet a (ctx_wallet w) = (Resolved p3, c3)"
    "c3 = [HttpGet ''/api/wallet'' a]"
    by (cases "ctx_wallet w") auto
  show ?thesis
    using assms d[of "enumerate 0 (case p2 of Some xs \<Rightarrow> xs | None \<Rightarrow> [])"]
    unfolding userContext_def f1 f2 f3 Let_def
    by (auto split: option.splits if_splits)
qed

lemma fallbackBranch_prompt:
  assumes "mem userId = Some s"
    and "GenerateContent p \<in> set (calls (fallbackBranch w mem userId a cm tr))"
    and "GenerateContent p \<notin> set tr"
  shows "\<exists>parts. p = buildPrompt (history s) (list_ex (js_includes cm) sensitiveKeywords) parts cm"
proof -
  let ?incl = "list_ex (js_includes cm) sensitiveKeywords"
  let ?ctx = "if a \<noteq> [] \<and> ?incl then userContext w a else Inr ([], [])"
  show ?thesis
  proof (cases ?ctx)
    case (Inl cs)
    then have "userContext w a = Inl cs" by (auto split: if_splits)
    then have "\<forall>c \<in> set cs. is_read c" using userContext_calls by blast
    moreover have "calls (fallbackBranch w mem userId a cm tr) = tr @ cs"
      using Inl by (simp add: fallbackBranch_def Let_def internal_error_def)
    ultimately show ?thesis using assms(2,3) by fastforce
  next
    case (Inr r)
    obtain parts cs where r: "r = (parts, cs)" by (cases r)
    have "\<forall>c \<in> set cs. is_read c"
    proof (cases "a \<noteq> [] \<and> ?incl")
      case True
      with Inr r have "userContext w a = Inr (parts, cs)" by simp
      then show ?thesis using userContext_calls by blast
    next
      case False
      with Inr r show ?thesis by auto
    qed
    moreover have "calls (fallbackBranch w mem userId a cm tr)
        = tr @ cs @ [GenerateContent (buildPrompt (history s) ?incl parts cm)]"
      using Inr r assms(1)
      by (simp add: fallbackBranch_def Let_def internal_error_def calls_send_reply
               split: gen_result.splits)
    ultimately have "p = buildPrompt (history s) ?incl parts cm"
      using assms(2,3) by fastforce
    then show ?thesis by blast
  qed
qed

section \<open>The history in the prompt\<close>

text \<open>
  C6, as the code has it.  The prompt the fallback branch sends to the generative
  collaborator embeds the last 10 entries of the history of the session, joined by
  line feeds, that is the last 5 pairs of a user entry and a bot entry; a history of
  at most 10 entries is embedded whole.
\<close>

theorem fallback_prompt_embeds_last_ten_entries:
  assumes "mem userId = Some s"
    and "GenerateContent p \<in> set (calls (fallbackBranch w mem userId a cm tr))"
    and "GenerateContent p \<notin> set tr"
  shows "js_includes p (join nl (slice_last 10 (history s)))
         \<and> (\<forall>e \<in> set (slice_last 10 (history s)). js_includes p e)
         \<and> (length (history s) \<le> 10 \<longrightarrow> (\<forall>e \<in> set (history s). js_includes p e))"
proof -
  from fallbackBranch_prompt[OF assms] obtain parts
    where p: "p = buildPrompt (history s) (list_ex (js_includes cm) sensitiveKeywords) parts cm"
    by blast
  have "js_includes p (join nl (slice_last 10 (history s)))"
    unfolding p using buildPrompt_embeds_history by (simp add: conversationHistory_def)
  moreover have e: "\<forall>e \<in> set (slice_last 10 (history s)). js_includes p e"
    unfolding p using buildPrompt_embeds_entry by blast
  moreover have "length (history s) \<le> 10 \<longrightarrow> (\<forall>e \<in> set (history s). js_includes p e)"
    using e by (simp add: slice_last_all)
  ultimately show ?thesis by blast
qed

theorem fallback_prompt_embeds_last_ten_entries_witness:
  "regular ''token'' = Some \<lparr>history = six_turns, lastCoin = None\<rparr>
   \<and> calls (fallbackBranch up regular ''token'' ''token'' ''hello'' [])
       = [GenerateContent (buildPrompt six_turns False [] ''hello'')]
   \<and> js_includes (buildPrompt six_turns False [] ''hello'') (join nl (drop 2 six_turns))
   \<and> js_includes (buildPrompt six_turns False [] ''hello'') ''User: q2''
   \<and> js_includes (buildPrompt six_turns False [] ''hello'') ''Bot: a6''"
proof -
  let ?p = "buildPrompt six_turns False [] ''hello''"
  have h1: "regular ''token'' = Some \<lparr>history = six_turns, lastCoin = None\<rparr>"
    by (simp add: regular_def)
  have h2: "calls (fallbackBranch up regular ''token'' ''token'' ''hello'' []) = [GenerateContent ?p]"
    by code_simp
  have h3: "GenerateContent ?p \<in> set (calls (fallbackBranch up regular ''token'' ''token'' ''hello'' []))"
    by (simp add: h2)
  have h4: "slice_last 10 six_turns = drop 2 six_turns"
    by (simp add: slice_last_def six_turns_def)
  have h5: "''User: q2'' \<in> set (drop 2 six_turns)" "''Bot: a6'' \<in> set (drop 2 six_turns)"
    by (simp_all add: six_turns_def)
  from fallback_prompt_embeds_last_ten_entries[OF h1 h3]
  show ?thesis using h1 h2 h4 h5 by simp
qed

text \<open>The claim as stated fails: a session of six turns (twelve entries) has fewer
  than ten turns, and the prompt leaves its first turn out.\<close>

theorem fallback_prompt_drops_turns_counterexample:
  "length six_turns = 12
   \<and> calls (chatHandler (down\<lparr>reply_gen := GenText ''ok''\<rparr>) regular (ask ''Hello''))
       = [extractCall ''Hello'', GenerateContent (buildPrompt six_turns False [] ''hello'')]
   \<and> \<not> js_includes (buildPrompt six_turns False [] ''hello'') ''User: q1''
   \<and> \<not> js_includes (buildPrompt six_turns False [] ''hello'') ''Bot: a1''
   \<and> js_includes (buildPrompt six_turns False [] ''hello'') ''User: q2''"
  by code_simp

section \<open>Requests that reach the buy/sell branch\<close>

lemma chatHandler_trade:
  assumes "reachesTrade req m"
  shows "chatHandler w mem req =
           tradeBranch w (mem(userIdOf req \<mapsto> resolvedSession w mem req m)) (userIdOf req)
             (authHeaderOf req) (cleanOf m) (coinOf w mem req m) [extractCall m]"
proof -
  from assms have m: "message req = Some m" "m \<noteq> []" by (simp_all add: reachesTrade_def)
  show ?thesis
    unfolding chatHandler_unfold[OF m] Let_def using assms by (simp add: reachesTrade_def)
qed



lemma trade_no_amount:
  assumes "mem userId = Some s" and "amountMatch cm = None"
  shows "status (tradeBranch w mem userId a cm cn tr) = 200"
    and "body (tradeBranch w mem userId a cm cn tr)
           = Reply (''Please specify the amount to '' @ order_word (orderTypeOf cm) @ ''.'')"
    and "calls (tradeBranch w mem userId a cm cn tr) = tr"
  using assms by (simp_all add: tradeBranch_def Let_def send_reply_simps calls_send_reply)

lemma trade_no_coin:
  assumes "mem userId = Some s" and "amountMatch cm = Some amt" and "\<not> truthy cn"
    and "\<not> (orderTypeOf cm = BUY \<and> isDollarOf cm)"
  shows "status (tradeBranch w mem userId a cm cn tr) = 200"
    and "body (tradeBranch w mem userId a cm cn tr)
           = Reply ''Please specify which coin you want to trade.''"
    and "calls (tradeBranch w mem userId a cm cn tr) = tr"
  using assms
  by (auto simp: tradeBranch_def tradeQuantity_def Let_def send_reply_simps calls_send_reply)

lemma trade_replies:
  assumes "mem userId = Some s" and "storeAnswers w"
    and "cn \<noteq> None \<or> \<not> (orderTypeOf cm = BUY \<and> isDollarOf cm) \<or> amountMatch cm = None"
  shows "status (tradeBranch w mem userId a cm cn tr) = 200
         \<and> (\<exists>r. body (tradeBranch w mem userId a cm cn tr) = Reply r)"
proof -
  have dr: "\<exists>row. dollar_row w = DbOk row" and tr: "\<exists>row. trade_row w = DbOk row"
    using assms(2) by (cases "dollar_row w"; cases "trade_row w"; simp add: storeAnswers_def)+
  then obtain row0 row where rows: "dollar_row w = DbOk row0" "trade_row w = DbOk row" by blast
  have w: "\<exists>p. fetchUserWallet a (trade_wallet w) = (Resolved p, [HttpGet ''/api/wallet'' a])"
    by (cases "trade_wallet w") auto
  have pf: "\<exists>p. fetchUserPortfolio a (trade_portfolio w) = (Resolved p, [HttpGet ''/api/assets'' a])"
    by (cases "trade_portfolio w") auto
  from w pf obtain pw pp where f: "fetchUserWallet a (trade_wallet w) = (Resolved pw, [HttpGet ''/api/wallet'' a])"
    "fetchUserPortfolio a (trade_portfolio w) = (Resolved pp, [HttpGet ''/api/assets'' a])" by blast
  show ?thesis
  proof (cases cn)
    case None
    with assms(1,3) show ?thesis
      by (auto simp: tradeBranch_def tradeQuantity_def Let_def send_reply_simps
               split: option.splits)
  next
    case (Some c)
    with assms(1) rows f show ?thesis
      by (auto simp: tradeBranch_def tradeQuantity_def buyCheck_def sellCheck_def placeOrder_def
                     Let_def send_reply_simps
               split: option.splits post_result.splits)
  qed
qed

lemma trade_store_error:
  assumes "amountMatch cm = Some amt" and "truthy cn"
    and "if orderTypeOf cm = BUY \<and> isDollarOf cm then dollar_row w = DbErr else trade_row w = DbErr"
  shows "status (tradeBranch w mem userId a cm cn tr) = 500"
proof -
  from assms(2) obtain c where c: "cn = Some c" "c \<noteq> []" by (cases cn) auto
  show ?thesis
    using assms(1,3) c
    by (auto simp: tradeBranch_def tradeQuantity_def Let_def internal_error_def split: if_splits)
qed

section \<open>The steps of the buy/sell branch\<close>

text \<open>
  C1, as the code has it.  For a request that reaches the buy/sell branch: a message
  without a number is answered with the prompt for the amount, before anything
  else; with a number, without a resolved coin, and unless the request is a
  dollar-denominated BUY, the answer is the prompt for the coin, and nothing but
  the coin extraction has been called by then (no lookup of the coin, no request
  to the backend); and whenever the store answers the lookups of the branch
  without an error, every request other than a dollar-denominated BUY with no coin
  at all is answered with status 200 and a reply.  With a number and a resolved
  coin, an error of the store at the first lookup of the coin ends the request with
  status 500.
\<close>

theorem trade_preconditions_reply:
  assumes "reachesTrade req m"
  shows "(amountMatch (cleanOf m) = None \<longrightarrow>
            status (chatHandler w mem req) = 200
            \<and> body (chatHandler w mem req)
                = Reply (''Please specify the amount to '' @ order_word (orderTypeOf (cleanOf m)) @ ''.'')
            \<and> calls (chatHandler w mem req) = [extractCall m])
         \<and> (amountMatch (cleanOf m) \<noteq> None \<and> \<not> truthy (coinOf w mem req m)
              \<and> \<not> (orderTypeOf (cleanOf m) = BUY \<and> isDollarOf (cleanOf m)) \<longrightarrow>
            status (chatHandler w mem req) = 200
            \<and> body (chatHandler w mem req) = Reply ''Please specify which coin you want to trade.''
            \<and> calls (chatHandler w mem req) = [extractCall m])
         \<and> (storeAnswers w
              \<and> (coinOf w mem req m \<noteq> None
                  \<or> \<not> (orderTypeOf (cleanOf m) = BUY \<and> isDollarOf (cleanOf m))
                  \<or> amountMatch (cleanOf m) = None) \<longrightarrow>
            status (chatHandler w mem req) = 200
            \<and> (\<exists>r. body (chatHandler w mem req) = Reply r))
         \<and> (amountMatch (cleanOf m) \<noteq> None \<and> truthy (coinOf w mem req m)
              \<and> (if orderTypeOf (cleanOf m) = BUY \<and> isDollarOf (cleanOf m)
                  then dollar_row w = DbErr else trade_row w = DbErr) \<longrightarrow>
            status (chatHandler w mem req) = 500)"
proof -
  let ?mem1 = "mem(userIdOf req \<mapsto> resolvedSession w mem req m)"
  let ?out = "chatHandler w mem req"
  have s: "?mem1 (userIdOf req) = Some (resolvedSession w mem req m)"
    by simp
  have A: "status ?out = 200
            \<and> body ?out
                = Reply (''Please specify the amount to '' @ order_word (orderTypeOf (cleanOf m)) @ ''.'')
            \<and> calls ?out = [extractCall m]"
    if "amountMatch (cleanOf m) = None"
    using trade_no_amount[where mem = ?mem1 and userId = "userIdOf req", OF s that]
    unfolding chatHandler_trade[OF assms] by simp
  have B: "status ?out = 200
            \<and> body ?out = Reply ''Please specify which coin you want to trade.''
            \<and> calls ?out = [extractCall m]"
    if a: "amountMatch (cleanOf m) \<noteq> None" "\<not> truthy (coinOf w mem req m)"
      "\<not> (orderTypeOf (cleanOf m) = BUY \<and> isDollarOf (cleanOf m))"
  proof -
    from a(1) obtain amt where "amountMatch (cleanOf m) = Some amt" by auto
    from trade_no_coin[where mem = ?mem1 and userId = "userIdOf req", OF s this a(2,3)]
    show ?thesis unfolding chatHandler_trade[OF assms] by simp
  qed
  have C: "status ?out = 200 \<and> (\<exists>r. body ?out = Reply r)"
    if "storeAnswers w" "coinOf w mem req m \<noteq> None
                  \<or> \<not> (orderTypeOf (cleanOf m) = BUY \<and> isDollarOf (cleanOf m))
                  \<or> amountMatch (cleanOf m) = None"
    using trade_replies[where mem = ?mem1 and userId = "userIdOf req", OF s that]
    unfolding chatHandler_trade[OF assms] by simp
  have D: "status ?out = 500"
    if a: "amountMatch (cleanOf m) \<noteq> None" "truthy (coinOf w mem req m)"
      "if orderTypeOf (cleanOf m) = BUY \<and> isDollarOf (cleanOf m)
       then dollar_row w = DbErr else trade_row w = DbErr"
  proof -
    from a(1) obtain amt where "amountMatch (cleanOf m) = Some amt" by auto
    from trade_store_error[OF this a(2,3)]
    show ?thesis unfolding chatHandler_trade[OF assms] by simp
  qed
  show ?thesis using A B C D by blast
qed

theorem trade_preconditions_reply_witness:
  "reachesTrade (ask ''Buy bitcoin'') ''Buy bitcoin''
   \<and> amountMatch (cleanOf ''Buy bitcoin'') = None
   \<and> status (chatHandler up Map.empty (ask ''Buy bitcoin'')) = 200
   \<and> body (chatHandler up Map.empty (ask ''Buy bitcoin'')) = Reply ''Please specify the amount to buy.''
   \<and> calls (chatHandler up Map.empty (ask ''Buy bitcoin'')) = [extractCall ''Buy bitcoin'']
   \<and> reachesTrade (ask ''Sell 3'') ''Sell 3''
   \<and> amountMatch (cleanOf ''Sell 3'') = Some ''3''
   \<and> coinOf down Map.empty (ask ''Sell 3'') ''Sell 3'' = None
   \<and> orderTypeOf (cleanOf ''Sell 3'') = SELL
   \<and> status (chatHandler down Map.empty (ask ''Sell 3'')) = 200
   \<and> body (chatHandler down Map.empty (ask ''Sell 3''))
       = Reply ''Please specify which coin you want to trade.''
   \<and> calls (chatHandler down Map.empty (ask ''Sell 3'')) = [extractCall ''Sell 3'']
   \<and> reachesTrade (ask ''Sell 2 bitcoin'') ''Sell 2 bitcoin''
   \<and> storeAnswers up
   \<and> coinOf up Map.empty (ask ''Sell 2 bitcoin'') ''Sell 2 bitcoin'' = Some ''bitcoin''
   \<and> status (chatHandler up Map.empty (ask ''Sell 2 bitcoin'')) = 200
   \<and> body (chatHandler up Map.empty (ask ''Sell 2 bitcoin'')) = Reply ''Insufficient quantity to sell.''
   \<and> reachesTrade (ask ''Buy 10 usd of bitcoin'') ''Buy 10 usd of bitcoin''
   \<and> amountMatch (cleanOf ''Buy 10 usd of bitcoin'') = Some ''10''
   \<and> coinOf (up\<lparr>dollar_row := DbErr\<rparr>) Map.empty (ask ''Buy 10 usd of bitcoin'')
        ''Buy 10 usd of bitcoin'' = Some ''bitcoin''
   \<and> orderTypeOf (cleanOf ''Buy 10 usd of bitcoin'') = BUY
   \<and> isDollarOf (cleanOf ''Buy 10 usd of bitcoin'')
   \<and> dollar_row (up\<lparr>dollar_row := DbErr\<rparr>) = DbErr
   \<and> status (chatHandler (up\<lparr>dollar_row := DbErr\<rparr>) Map.empty (ask ''Buy 10 usd of bitcoin'')) = 500"
proof -
  have a1: "reachesTrade (ask ''Buy bitcoin'') ''Buy bitcoin''"
    and a2: "amountMatch (cleanOf ''Buy bitcoin'') = None"
    and a3: "order_word (orderTypeOf (cleanOf ''Buy bitcoin'')) = ''buy''"
    by code_simp+
  have b1: "reachesTrade (ask ''Sell 3'') ''Sell 3''"
    and b2: "amountMatch (cleanOf ''Sell 3'') = Some ''3''"
    and b3: "coinOf down Map.empty (ask ''Sell 3'') ''Sell 3'' = None"
    and b4: "orderTypeOf (cleanOf ''Sell 3'') = SELL"
    by code_simp+
  have c1: "reachesTrade (ask ''Sell 2 bitcoin'') ''Sell 2 bitcoin''"
    and c2: "storeAnswers up"
    and c3: "coinOf up Map.empty (ask ''Sell 2 bitcoin'') ''Sell 2 bitcoin'' = Some ''bitcoin''"
    and c4: "body (chatHandler up Map.empty (ask ''Sell 2 bitcoin'')) = Reply ''Insufficient quantity to sell.''"
    by code_simp+
  have d1: "reachesTrade (ask ''Buy 10 usd of bitcoin'') ''Buy 10 usd of bitcoin''"
    and d2: "amountMatch (cleanOf ''Buy 10 usd of bitcoin'') = Some ''10''"
    and d3: "coinOf (up\<lparr>dollar_row := DbErr\<rparr>) Map.empty (ask ''Buy 10 usd of bitcoin'')
               ''Buy 10 usd of bitcoin'' = Some ''bitcoin''"
    and d4: "orderTypeOf (cleanOf ''Buy 10 usd of bitcoin'') = BUY"
    and d5: "isDollarOf (cleanOf ''Buy 10 usd of bitcoin'')"
    and d6: "dollar_row (up\<lparr>dollar_row := DbErr\<rparr>) = DbErr"
    by code_simp+
  from trade_preconditions_reply[OF a1, of up Map.empty]
       trade_preconditions_reply[OF b1, of down Map.empty]
       trade_preconditions_reply[OF c1, of up Map.empty]
       trade_preconditions_reply[OF d1, of "up\<lparr>dollar_row := DbErr\<rparr>" Map.empty]
  show ?thesis using a1 a2 a3 b1 b2 b3 b4 c1 c2 c3 c4 d1 d2 d3 d4 d5 d6 by simp
qed

text \<open>The claim as stated fails.  Without a coin and without a number the answer is
  the prompt for the amount, not the prompt for the coin; and with the coin
  resolved, an error of the store at the lookup ends the request with status 500.\<close>

theorem trade_preconditions_counterexample:
  "reachesTrade (ask ''Buy'') ''Buy''
   \<and> coinOf down Map.empty (ask ''Buy'') ''Buy'' = None
   \<and> body (chatHandler down Map.empty (ask ''Buy'')) = Reply ''Please specify the amount to buy.''
   \<and> reachesTrade (ask ''Sell 1 bitcoin'') ''Sell 1 bitcoin''
   \<and> coinOf (up\<lparr>trade_row := DbErr\<rparr>) Map.empty (ask ''Sell 1 bitcoin'') ''Sell 1 bitcoin''
       = Some ''bitcoin''
   \<and> status (chatHandler (up\<lparr>trade_row := DbErr\<rparr>) Map.empty (ask ''Sell 1 bitcoin'')) = 500"
  by code_simp

text \<open>
  A dollar-denominated BUY looks the coin up (line 218) before the check of line 232.
  With no coin at all the lookup throws on \<^verbatim>\<open>null\<close>: the request ends with status
  500 although the store is in order, the store is never asked, and the history is
  not updated.
\<close>

lemma dollar_buy_without_coin:
  "reachesTrade (ask ''Buy 100 usd'') ''Buy 100 usd''
   \<and> coinOf (down\<lparr>dollar_row := DbOk (Some bitcoin), trade_row := DbOk (Some bitcoin)\<rparr>)
        Map.empty (ask ''Buy 100 usd'') ''Buy 100 usd'' = None
   \<and> storeAnswers (down\<lparr>dollar_row := DbOk (Some bitcoin), trade_row := DbOk (Some bitcoin)\<rparr>)
   \<and> status (chatHandler (down\<lparr>dollar_row := DbOk (Some bitcoin), trade_row := DbOk (Some bitcoin)\<rparr>)
        Map.empty (ask ''Buy 100 usd'')) = 500
   \<and> calls (chatHandler (down\<lparr>dollar_row := DbOk (Some bitcoin), trade_row := DbOk (Some bitcoin)\<rparr>)
        Map.empty (ask ''Buy 100 usd'')) = [extractCall ''Buy 100 usd'']
   \<and> memory_after (chatHandler (down\<lparr>dollar_row := DbOk (Some bitcoin), trade_row := DbOk (Some bitcoin)\<rparr>)
        Map.empty (ask ''Buy 100 usd'')) ''token'' = Some fresh"
  by code_simp

section \<open>The balance check of a BUY\<close>





section \<open>The holdings check of a SELL\<close>





section \<open>The quantity of an order\<close>





section \<open>Every order comes after the checks\<close>




















end
